theory Spec2Isabelle
  imports Main "HOL-Library.AList"
begin

section \<open>JavaScript values\<close>

text \<open>
  The server is TypeScript on Node. Strings are modelled as \<open>string\<close> (one \<open>char\<close> per
  code unit, code units 0..255), a \<open>Buffer\<close> as a list of byte values, a JavaScript
  \<open>number\<close> that holds a counter or an epoch time as \<open>int\<close>, and what may be
  \<open>undefined\<close> as an \<open>option\<close>.

  The handlers throw string literals (\<open>throw 'Unauthorized.'\<close>); the libraries they call
  throw \<open>Error\<close> objects. The difference is visible: \<open>error.message\<close> of a thrown string
  is \<open>undefined\<close>.
\<close>

type_synonym bytes = "nat list"

datatype error = Thrown string | ErrorObject string

definition message :: "error \<Rightarrow> string option" where
  "message e = (case e of Thrown s \<Rightarrow> None | ErrorObject m \<Rightarrow> Some m)"

text \<open>\<open>truthy v\<close> is the string when \<open>v\<close> is a non-empty string, and \<open>None\<close> when \<open>!v\<close> holds
  (\<open>undefined\<close> or the empty string).\<close>

definition truthy :: "string option \<Rightarrow> string option" where
  "truthy v = (case v of None \<Rightarrow> None | Some s \<Rightarrow> (if s = [] then None else Some s))"

subsection \<open>String.prototype.split, trim and parseInt\<close>

fun split_on :: "char \<Rightarrow> string \<Rightarrow> string list" where
  "split_on sep [] = [Nil]"
| "split_on sep (c # cs) =
     (if c = sep then [] # split_on sep cs
      else (case split_on sep cs of [] \<Rightarrow> [c # Nil] | p # ps \<Rightarrow> (c # p) # ps))"

definition is_space :: "char \<Rightarrow> bool" where
  "is_space c = ((of_char c :: nat) \<in> set [9, 10, 11, 12, 13, 32, 160])"

definition trim :: "string \<Rightarrow> string" where
  "trim s = rev (dropWhile is_space (rev (dropWhile is_space s)))"

definition hex_value :: "char \<Rightarrow> nat option" where
  "hex_value c =
     (let n = (of_char c :: nat) in
      if 48 \<le> n \<and> n \<le> 57 then Some (n - 48)
      else if 97 \<le> n \<and> n \<le> 102 then Some (n - 87)
      else if 65 \<le> n \<and> n \<le> 70 then Some (n - 55)
      else None)"

definition strip_sign :: "string \<Rightarrow> bool \<times> string" where
  "strip_sign s =
     (case s of [] \<Rightarrow> (False, s)
      | c # r \<Rightarrow> (if c = CHR ''-'' then (True, r)
                  else if c = CHR ''+'' then (False, r) else (False, s)))"

definition strip_0x :: "string \<Rightarrow> string" where
  "strip_0x s =
     (case s of a # b # r \<Rightarrow>
         (if a = CHR ''0'' \<and> (b = CHR ''x'' \<or> b = CHR ''X'') then r else s)
      | _ \<Rightarrow> s)"

text \<open>\<open>parseInt(h, 16)\<close>: leading white space, a sign, an optional \<open>0x\<close>, then the longest
  run of hexadecimal digits; \<open>None\<close> is \<open>NaN\<close>. (A run of more than 13 digits is rounded
  by JavaScript; the model keeps it exact.)\<close>

definition parseInt16 :: "string \<Rightarrow> int option" where
  "parseInt16 h =
     (let (neg, s) = strip_sign (dropWhile is_space h);
          ds = List.map_filter hex_value (takeWhile (\<lambda>c. hex_value c \<noteq> None) (strip_0x s));
          v = foldl (\<lambda>acc d. 16 * acc + int d) 0 ds
      in if ds = [] then None else Some (if neg then - v else v))"

text \<open>An array element stored into a \<open>Buffer\<close> is reduced to a byte; \<open>NaN\<close> becomes 0.\<close>

definition to_uint8 :: "int option \<Rightarrow> nat" where
  "to_uint8 v = (case v of None \<Rightarrow> 0 | Some n \<Rightarrow> nat (n mod 256))"

subsection \<open>The base64url package\<close>

definition alphabet :: string where
  "alphabet = ''ABCDEFGHIJKLMNOPQRSTUVWXYZabcdefghijklmnopqrstuvwxyz0123456789-_''"

definition sextet :: "nat \<Rightarrow> char" where
  "sextet n = alphabet ! (n mod 64)"

text \<open>\<open>base64url.encode\<close> of a buffer: base64 without padding, on the URL alphabet.\<close>

fun base64url_encode :: "bytes \<Rightarrow> string" where
  "base64url_encode (a # b # c # r) =
     sextet (a div 4) # sextet ((a mod 4) * 16 + b div 16) #
     sextet ((b mod 16) * 4 + c div 64) # sextet (c mod 64) # base64url_encode r"
| "base64url_encode [a, b] =
     [sextet (a div 4), sextet ((a mod 4) * 16 + b div 16), sextet ((b mod 16) * 4)]"
| "base64url_encode [a] = [sextet (a div 4), sextet ((a mod 4) * 16)]"
| "base64url_encode [] = []"

fun index_of :: "'a \<Rightarrow> 'a list \<Rightarrow> nat option" where
  "index_of x [] = None"
| "index_of x (y # ys) = (if x = y then Some 0 else map_option Suc (index_of x ys))"

definition sextet_of :: "char \<Rightarrow> nat option" where
  "sextet_of c =
     (if c = CHR ''+'' then Some 62 else if c = CHR ''/'' then Some 63
      else index_of c alphabet)"

fun unsextets :: "nat list \<Rightarrow> bytes" where
  "unsextets (a # b # c # d # r) =
     (a * 4 + b div 16) # ((b mod 16) * 16 + c div 4) # ((c mod 4) * 64 + d) # unsextets r"
| "unsextets [a, b, c] = [a * 4 + b div 16, (b mod 16) * 16 + c div 4]"
| "unsextets [a, b] = [a * 4 + b div 16]"
| "unsextets r = []"

text \<open>\<open>base64url.toBuffer\<close>: the decoder of Node, which accepts both alphabets and skips
  every other character.\<close>

definition base64url_toBuffer :: "string \<Rightarrow> bytes" where
  "base64url_toBuffer s = unsextets (List.map_filter sextet_of s)"

section \<open>Origin resolution (\<open>getOrigin\<close>, webauthn.ts)\<close>

record process_env =
  ANDROID_PACKAGENAME :: "string option"
  ANDROID_SHA256HASH :: "string option"

text \<open>The character class of \<open>appRe = /^[a-zA-z0-9_.]+/\<close>, as the source writes it: its
  second range is \<open>A-z\<close>, code units 65 to 122.\<close>

definition appRe_class :: "char \<Rightarrow> bool" where
  "appRe_class c =
     (let n = (of_char c :: nat) in
      (97 \<le> n \<and> n \<le> 122) \<or> (65 \<le> n \<and> n \<le> 122) \<or> (48 \<le> n \<and> n \<le> 57) \<or> n = 95 \<or> n = 46)"

text \<open>\<open>userAgent.match(appRe)\<close>: the longest leading run of the class; no match when it is
  empty.\<close>

definition appRe_match :: "string \<Rightarrow> string option" where
  "appRe_match userAgent = truthy (Some (takeWhile appRe_class userAgent))"

definition android_origin :: "string \<Rightarrow> string" where
  "android_origin hash =
     (let octArray = map parseInt16 (split_on CHR '':'' hash);
          androidHash = base64url_encode (map to_uint8 octArray)
      in ''android:apk-key-hash:'' @ androidHash)"

text \<open>The loop \<open>for (let i = 0; i < package_names.length; i++)\<close>. The second list is
  \<open>hashes\<close> from index \<open>i\<close> on, so its head is \<open>hashes[i]\<close>; when \<open>hashes\<close> is too short,
  \<open>hashes[i]\<close> is \<open>undefined\<close> and \<open>hashes[i].split\<close> throws a TypeError.\<close>

fun package_loop :: "string \<Rightarrow> string list \<Rightarrow> string list \<Rightarrow> error + string option" where
  "package_loop appName [] hashes = Inr None"
| "package_loop appName (p # package_names) hashes =
     (if appName = p then
        (case hashes of
           [] \<Rightarrow> Inl (ErrorObject ''TypeError: Cannot read properties of undefined'')
         | h # hs \<Rightarrow> Inr (Some (android_origin h)))
      else package_loop appName package_names (tl hashes))"

definition getOrigin :: "process_env \<Rightarrow> string \<Rightarrow> string option \<Rightarrow> error + string" where
  "getOrigin env org userAgent =
     (case truthy userAgent of
        None \<Rightarrow> Inr org
      | Some ua \<Rightarrow>
          (case appRe_match ua of
             None \<Rightarrow> Inr org
           | Some appName \<Rightarrow>
               (case truthy (ANDROID_PACKAGENAME env) of
                  None \<Rightarrow> Inr org
                | Some names \<Rightarrow>
                    (case truthy (ANDROID_SHA256HASH env) of
                       None \<Rightarrow> Inr org
                     | Some hs \<Rightarrow>
                         (let package_names = map trim (split_on CHR '','' names);
                              hashes = map trim (split_on CHR '','' hs)
                          in case package_loop appName package_names hashes of
                               Inl e \<Rightarrow> Inl e
                             | Inr None \<Rightarrow> Inr org
                             | Inr (Some android) \<Rightarrow> Inr android)))))"

section \<open>The credential repository (credential.ts)\<close>

type_synonym user_id = string
type_synonym credential_id = string

record StoredCredential =
  user_id :: user_id
  credentialID :: credential_id
  credentialPublicKey :: string
  counter :: int
  aaguid :: "string option"
  registered :: "int option"
  user_verifying :: bool
  authenticatorAttachment :: string
  transports :: "string list option"
  browser :: "string option"
  os :: "string option"
  platform :: "string option"
  last_used :: "int option"
  clientExtensionResults :: "string option"
  dpks :: "string list option"

text \<open>The interface \<open>StoredDevicePublicKey\<close>; its field \<open>credentialID\<close> is written
  \<open>dpk_credentialID\<close> here, the name being taken by \<open>StoredCredential\<close>.\<close>

record StoredDevicePublicKey =
  dpk_credentialID :: credential_id
  dpk :: string

subsection \<open>The document store\<close>

text \<open>
  \<open>const store = getFirestore()\<close> holds two collections, \<open>credentials\<close> and \<open>dpks\<close>, each a
  set of documents addressed by a document id: an association list from document ids to
  documents, read with \<open>map_of\<close>, written with \<open>AList.update\<close> (\<open>ref.set\<close>) and
  \<open>AList.delete\<close> (\<open>ref.delete\<close>).

  Every call to the store is a request that the backend performs or rejects. \<open>faults\<close> is
  the backend's answer to the requests still to come, in order (\<open>Some e\<close>: the promise
  rejects with \<open>e\<close> and the store is unchanged; \<open>None\<close>, or a list already used up: the
  request is performed), and \<open>issued\<close> lists the requests made so far. A request takes
  effect at the point where it is issued.
\<close>

datatype store_call =
    Query_credentials user_id
  | Get_credential credential_id
  | Set_credential credential_id
  | Delete_credential credential_id
  | Query_dpks credential_id
  | Set_dpk string
  | Delete_dpk string

record firestore =
  coll_credentials :: "(string \<times> StoredCredential) list"
  coll_dpks :: "(string \<times> StoredDevicePublicKey) list"
  faults :: "error option list"
  issued :: "store_call list"

definition request :: "store_call \<Rightarrow> firestore \<Rightarrow> error option \<times> firestore" where
  "request c db =
     (case faults db of
        [] \<Rightarrow> (None, db\<lparr>issued := issued db @ [c]\<rparr>)
      | f # fs \<Rightarrow> (f, db\<lparr>faults := fs, issued := issued db @ [c]\<rparr>))"

subsection \<open>Device public keys\<close>

definition getDevicePublicKeys ::
  "credential_id \<Rightarrow> firestore \<Rightarrow> (error + string list) \<times> firestore" where
  "getDevicePublicKeys credential_id db =
     (case request (Query_dpks credential_id) db of
        (Some e, db1) \<Rightarrow> (Inl e, db1)
      | (None, db1) \<Rightarrow>
          (let refs = filter (\<lambda>item. dpk_credentialID (snd item) = credential_id) (coll_dpks db1)
           in (Inr (map (\<lambda>item. dpk (snd item)) refs), db1)))"

definition removeDevicePublicKey :: "string \<Rightarrow> firestore \<Rightarrow> (error + unit) \<times> firestore" where
  "removeDevicePublicKey k db =
     (case request (Delete_dpk k) db of
        (Some e, db1) \<Rightarrow> (Inl e, db1)
      | (None, db1) \<Rightarrow> (Inr (), db1\<lparr>coll_dpks := AList.delete k (coll_dpks db1)\<rparr>))"

definition storeDevicePublicKey ::
  "StoredDevicePublicKey \<Rightarrow> firestore \<Rightarrow> (error + unit) \<times> firestore" where
  "storeDevicePublicKey devicePublicKey db =
     (case request (Set_dpk (dpk devicePublicKey)) db of
        (Some e, db1) \<Rightarrow> (Inl e, db1)
      | (None, db1) \<Rightarrow>
          (Inr (), db1\<lparr>coll_dpks :=
                          AList.update (dpk devicePublicKey) devicePublicKey (coll_dpks db1)\<rparr>))"

subsection \<open>Credentials\<close>

text \<open>The loop \<open>for (let cred of results) cred.dpks = await getDevicePublicKeys(...)\<close>.\<close>

fun join_dpks ::
  "StoredCredential list \<Rightarrow> firestore \<Rightarrow> (error + StoredCredential list) \<times> firestore" where
  "join_dpks [] db = (Inr [], db)"
| "join_dpks (cred # results) db =
     (case getDevicePublicKeys (credentialID cred) db of
        (Inl e, db1) \<Rightarrow> (Inl e, db1)
      | (Inr ks, db1) \<Rightarrow>
          (case join_dpks results db1 of
             (Inl e, db2) \<Rightarrow> (Inl e, db2)
           | (Inr rest, db2) \<Rightarrow> (Inr (cred\<lparr>dpks := Some ks\<rparr> # rest), db2)))"

text \<open>The query \<open>where('user_id', '==', user_id).orderBy('registered', 'desc')\<close>: a
  document without the field it is ordered by is not returned; documents registered at
  the same time stay in the order of the collection.\<close>

definition query_credentials :: "user_id \<Rightarrow> firestore \<Rightarrow> StoredCredential list" where
  "query_credentials u db =
     sort_key (\<lambda>cred. case registered cred of None \<Rightarrow> 0 | Some t \<Rightarrow> - t)
       (filter (\<lambda>cred. user_id cred = u \<and> registered cred \<noteq> None)
          (map snd (coll_credentials db)))"

definition getCredentials ::
  "user_id \<Rightarrow> firestore \<Rightarrow> (error + StoredCredential list) \<times> firestore" where
  "getCredentials u db =
     (case request (Query_credentials u) db of
        (Some e, db1) \<Rightarrow> (Inl e, db1)
      | (None, db1) \<Rightarrow> join_dpks (query_credentials u db1) db1)"

text \<open>\<open>doc.data()\<close> of a document that does not exist is \<open>undefined\<close>; the cast to
  \<open>StoredCredential\<close> does not check it.\<close>

definition getCredential ::
  "credential_id \<Rightarrow> firestore \<Rightarrow> (error + StoredCredential option) \<times> firestore" where
  "getCredential credential_id db =
     (case request (Get_credential credential_id) db of
        (Some e, db1) \<Rightarrow> (Inl e, db1)
      | (None, db1) \<Rightarrow> (Inr (map_of (coll_credentials db1) credential_id), db1))"

definition storeCredential ::
  "StoredCredential \<Rightarrow> firestore \<Rightarrow> (error + unit) \<times> firestore" where
  "storeCredential credential db =
     (case request (Set_credential (credentialID credential)) db of
        (Some e, db1) \<Rightarrow> (Inl e, db1)
      | (None, db1) \<Rightarrow>
          (Inr (), db1\<lparr>coll_credentials :=
                          AList.update (credentialID credential) credential
                            (coll_credentials db1)\<rparr>))"

text \<open>\<open>getDpks.forEach(item => removeDevicePublicKey(item))\<close> issues one delete for each
  key and awaits none of them: the promise each call returns is dropped, and with it a
  rejection. The delete of the credential document is the promise returned. (A delete
  that the backend accepts is applied here when it is issued; the source does not wait
  for it, so it promises even less than this.)\<close>

definition removeCredential ::
  "credential_id \<Rightarrow> firestore \<Rightarrow> (error + unit) \<times> firestore" where
  "removeCredential credential_id db =
     (case getDevicePublicKeys credential_id db of
        (Inl e, db1) \<Rightarrow> (Inl e, db1)
      | (Inr getDpks, db1) \<Rightarrow>
          (let db2 = fold (\<lambda>item d. snd (removeDevicePublicKey item d)) getDpks db1
           in case request (Delete_credential credential_id) db2 of
                (Some e, db3) \<Rightarrow> (Inl e, db3)
              | (None, db3) \<Rightarrow>
                  (Inr (), db3\<lparr>coll_credentials :=
                                  AList.delete credential_id (coll_credentials db3)\<rparr>)))"

section \<open>The ceremony handlers (webauthn.ts)\<close>

subsection \<open>Requests, sessions and responses\<close>

text \<open>\<open>UserInfo\<close> of common.ts; its field \<open>user_id\<close> is written \<open>ui_user_id\<close>.\<close>

record UserInfo =
  ui_user_id :: user_id
  name :: string
  displayName :: string
  picture :: string

text \<open>\<open>res.locals\<close>, filled by the middleware in front of the handlers.\<close>

record locals =
  user :: "UserInfo option"
  hostname :: "string option"
  origin :: "string option"

text \<open>The three fields of \<open>req.session\<close> that hold the state of a ceremony.\<close>

record session =
  challenge :: "string option"
  timeout :: "int option"
  type :: "string option"

record useragent_details =
  ua_browser :: "string option"
  ua_os :: "string option"
  ua_platform :: "string option"

record 'b request =
  body :: 'b
  session :: session
  header_User_Agent :: "string option"
  useragent :: "useragent_details option"

record RegistrationCredentialJSON =
  rc_id :: string
  rc_response :: string
  rc_transports :: "string list option"
  rc_clientExtensionResults :: "string option"

record AuthenticationCredentialJSON =
  ac_id :: string
  ac_response :: string

text \<open>What a handler leaves behind: the session and the store after it, what it sent
  (\<open>Rejected e\<close>: the handler threw \<open>e\<close> outside every \<open>try\<close>, so its promise rejects and
  it sends nothing), and what it wrote with \<open>console.error\<close>.\<close>

datatype 'a reply =
    Json 'a
  | Status400_message "string option"
  | Status400_error error
  | Rejected error

record 'a outcome =
  session_after :: session
  store_after :: firestore
  reply :: "'a reply"
  console_error :: "error list"

subsection \<open>The verifier of @simplewebauthn/server\<close>

text \<open>The verifier is not part of the repository: the handlers take it as a parameter,
  a function from the options it is called with to what it returns or throws.\<close>

record DevicePublicKeyOutput =
  dpk_bytes :: "bytes option"

record AuthenticatorExtensionResults =
  devicePublicKey :: "DevicePublicKeyOutput option"

record RegistrationInfo =
  ri_credentialPublicKey :: bytes
  ri_credentialID :: bytes
  ri_counter :: int
  ri_userVerified :: bool
  ri_authenticatorExtensionResults :: "AuthenticatorExtensionResults option"

record VerifiedRegistrationResponse =
  reg_verified :: bool
  registrationInfo :: "RegistrationInfo option"

record AuthenticationInfo =
  newCounter :: int
  authenticatorExtensionResults :: "AuthenticatorExtensionResults option"

record VerifiedAuthenticationResponse =
  verified :: bool
  authenticationInfo :: "AuthenticationInfo option"

record AuthenticatorDevice =
  ad_credentialPublicKey :: bytes
  ad_credentialID :: bytes
  ad_counter :: int
  ad_transports :: "string list option"

record 'c verify_opts =
  credential :: 'c
  expectedChallenge :: string
  expectedOrigin :: string
  expectedRPID :: string

record 'c verify_auth_opts = "'c verify_opts" +
  authenticator :: AuthenticatorDevice

type_synonym registration_verifier =
  "RegistrationCredentialJSON verify_opts \<Rightarrow> error + VerifiedRegistrationResponse"

type_synonym authentication_verifier =
  "AuthenticationCredentialJSON verify_auth_opts \<Rightarrow> error + VerifiedAuthenticationResponse"

subsection \<open>/registerResponse\<close>

text \<open>The object literal passed to \<open>storeCredential\<close>.\<close>

definition new_credential ::
  "UserInfo \<Rightarrow> RegistrationInfo \<Rightarrow> int \<Rightarrow> RegistrationCredentialJSON request \<Rightarrow>
     StoredCredential" where
  "new_credential usr info getNow req =
     \<lparr>user_id = ui_user_id usr,
      credentialID = base64url_encode (ri_credentialID info),
      credentialPublicKey = base64url_encode (ri_credentialPublicKey info),
      counter = ri_counter info,
      aaguid = None,
      registered = Some getNow,
      user_verifying = ri_userVerified info,
      authenticatorAttachment =
        (case truthy (type (session req)) of None \<Rightarrow> ''undefined'' | Some t \<Rightarrow> t),
      transports = rc_transports (body req),
      browser = (case useragent req of None \<Rightarrow> None | Some d \<Rightarrow> ua_browser d),
      os = (case useragent req of None \<Rightarrow> None | Some d \<Rightarrow> ua_os d),
      platform = (case useragent req of None \<Rightarrow> None | Some d \<Rightarrow> ua_platform d),
      last_used = None,
      clientExtensionResults = rc_clientExtensionResults (body req),
      dpks = None\<rparr>"

text \<open>The handler from the destructuring of \<open>verification\<close> on, given what the verifier
  returned.\<close>

definition registerResponse_verified ::
  "VerifiedRegistrationResponse \<Rightarrow> UserInfo \<Rightarrow> int \<Rightarrow> RegistrationCredentialJSON request \<Rightarrow>
     firestore \<Rightarrow> (error + RegistrationCredentialJSON) \<times> firestore" where
  "registerResponse_verified verification usr getNow req db =
     (case (if reg_verified verification then registrationInfo verification else None) of
        None \<Rightarrow> (Inl (Thrown ''User verification failed.''), db)
      | Some info \<Rightarrow>
          (let base64CredentialID = base64url_encode (ri_credentialID info)
           in case storeCredential (new_credential usr info getNow req) db of
                (Inl e, db1) \<Rightarrow> (Inl e, db1)
              | (Inr u, db1) \<Rightarrow>
                  (case ri_authenticatorExtensionResults info of
                     None \<Rightarrow> (Inr (body req), db1)
                   | Some ext \<Rightarrow>
                       (case devicePublicKey ext of
                          None \<Rightarrow> (Inr (body req), db1)
                        | Some d \<Rightarrow>
                            (case dpk_bytes d of
                               None \<Rightarrow> (Inl (Thrown ''DPK data is missing!''), db1)
                             | Some k \<Rightarrow>
                                 (case storeDevicePublicKey
                                         \<lparr>dpk_credentialID = base64CredentialID,
                                          dpk = base64url_encode k\<rparr> db1 of
                                    (Inl e, db2) \<Rightarrow> (Inl e, db2)
                                  | (Inr u2, db2) \<Rightarrow> (Inr (body req), db2)))))))"

text \<open>The body of the \<open>try\<close> block.\<close>

definition registerResponse_try ::
  "registration_verifier \<Rightarrow> process_env \<Rightarrow> int \<Rightarrow> RegistrationCredentialJSON request \<Rightarrow>
     locals \<Rightarrow> firestore \<Rightarrow> (error + RegistrationCredentialJSON) \<times> firestore" where
  "registerResponse_try verifyRegistrationResponse env getNow req res_locals db =
     (case user res_locals of
        None \<Rightarrow> (Inl (Thrown ''Unauthorized.''), db)
      | Some usr \<Rightarrow>
     (case truthy (challenge (session req)) of
        None \<Rightarrow> (Inl (Thrown ''No challenge found.''), db)
      | Some chal \<Rightarrow>
     (case truthy (hostname res_locals) of
        None \<Rightarrow> (Inl (Thrown ''Hostname not configured.''), db)
      | Some rpid \<Rightarrow>
     (case truthy (origin res_locals) of
        None \<Rightarrow> (Inl (Thrown ''Origin not configured.''), db)
      | Some org \<Rightarrow>
     (case getOrigin env org (header_User_Agent req) of
        Inl e \<Rightarrow> (Inl e, db)
      | Inr orig \<Rightarrow>
     (case verifyRegistrationResponse
             \<lparr>credential = body req, expectedChallenge = chal,
              expectedOrigin = orig, expectedRPID = rpid\<rparr> of
        Inl e \<Rightarrow> (Inl e, db)
      | Inr verification \<Rightarrow> registerResponse_verified verification usr getNow req db))))))"

text \<open>The three \<open>delete req.session...\<close> statements, at the end of the \<open>try\<close> block and in
  the \<open>catch\<close> block. The \<open>catch\<close> block answers with \<open>error.message\<close>.\<close>

definition registerResponse ::
  "registration_verifier \<Rightarrow> process_env \<Rightarrow> int \<Rightarrow> RegistrationCredentialJSON request \<Rightarrow>
     locals \<Rightarrow> firestore \<Rightarrow> RegistrationCredentialJSON outcome" where
  "registerResponse verifyRegistrationResponse env getNow req res_locals db =
     (case registerResponse_try verifyRegistrationResponse env getNow req res_locals db of
        (Inr cred, db1) \<Rightarrow>
          \<lparr>session_after = (session req)\<lparr>challenge := None, timeout := None, type := None\<rparr>,
           store_after = db1, reply = Json cred, console_error = []\<rparr>
      | (Inl e, db1) \<Rightarrow>
          \<lparr>session_after = (session req)\<lparr>challenge := None, timeout := None, type := None\<rparr>,
           store_after = db1, reply = Status400_message (message e), console_error = [e]\<rparr>)"

subsection \<open>/authResponse\<close>

text \<open>The handler from the destructuring of \<open>verification\<close> on, given what the verifier
  returned or threw. \<open>storedCred\<close> is the element of the array that \<open>getCredentials\<close> built;
  the two assignments change that object.\<close>

definition authResponse_verified ::
  "error + VerifiedAuthenticationResponse \<Rightarrow> int \<Rightarrow> StoredCredential \<Rightarrow> firestore \<Rightarrow>
     (error + StoredCredential) \<times> firestore" where
  "authResponse_verified verification getNow storedCred db =
     (case verification of
        Inl e \<Rightarrow> (Inl e, db)
      | Inr v \<Rightarrow>
          (if \<not> verified v then (Inl (Thrown ''User verification failed.''), db)
           else
             (case authenticationInfo v of
                None \<Rightarrow> (Inl (ErrorObject ''TypeError: Cannot read properties of undefined''), db)
              | Some info \<Rightarrow>
                  (let storedCred1 = storedCred\<lparr>counter := newCounter info,
                                                  last_used := Some getNow\<rparr>
                   in case authenticatorExtensionResults info of
                        None \<Rightarrow> (Inr storedCred1, db)
                      | Some ext \<Rightarrow>
                          (case devicePublicKey ext of
                             None \<Rightarrow> (Inr storedCred1, db)
                           | Some d \<Rightarrow>
                               (case dpk_bytes d of
                                  None \<Rightarrow> (Inl (Thrown ''DPK data is missing!''), db)
                                | Some k \<Rightarrow>
                                    (case getDevicePublicKeys (credentialID storedCred1) db of
                                       (Inl e, db1) \<Rightarrow> (Inl e, db1)
                                     | (Inr storedDpks, db1) \<Rightarrow>
                                         (let base64Dpk = base64url_encode k
                                          in if base64Dpk \<in> set storedDpks
                                             then (Inr storedCred1, db1)
                                             else
                                               (case storeDevicePublicKey
                                                       \<lparr>dpk_credentialID = credentialID storedCred1,
                                                        dpk = base64Dpk\<rparr> db1 of
                                                  (Inl e, db2) \<Rightarrow> (Inl e, db2)
                                                | (Inr u, db2) \<Rightarrow> (Inr storedCred1, db2))))))))))"

text \<open>The options the verifier is called with.\<close>

definition authResponse_opts ::
  "AuthenticationCredentialJSON \<Rightarrow> string \<Rightarrow> string \<Rightarrow> string \<Rightarrow> StoredCredential \<Rightarrow>
     AuthenticationCredentialJSON verify_auth_opts" where
  "authResponse_opts claimedCred chal orig rpid storedCred =
     \<lparr>credential = claimedCred, expectedChallenge = chal,
      expectedOrigin = orig, expectedRPID = rpid,
      authenticator =
        \<lparr>ad_credentialPublicKey = base64url_toBuffer (credentialPublicKey storedCred),
         ad_credentialID = base64url_toBuffer (credentialID storedCred),
         ad_counter = counter storedCred,
         ad_transports = transports storedCred\<rparr>\<rparr>"

text \<open>The body of the \<open>try\<close> block.\<close>

definition authResponse_try ::
  "authentication_verifier \<Rightarrow> int \<Rightarrow> AuthenticationCredentialJSON \<Rightarrow> UserInfo \<Rightarrow>
     string \<Rightarrow> string \<Rightarrow> string \<Rightarrow> firestore \<Rightarrow> (error + StoredCredential) \<times> firestore" where
  "authResponse_try verifyAuthenticationResponse getNow claimedCred usr chal orig rpid db =
     (case getCredentials (ui_user_id usr) db of
        (Inl e, db1) \<Rightarrow> (Inl e, db1)
      | (Inr credentials, db1) \<Rightarrow>
          (case find (\<lambda>cred. credentialID cred = ac_id claimedCred) credentials of
             None \<Rightarrow> (Inl (Thrown ''Authenticating credential not found.''), db1)
           | Some storedCred \<Rightarrow>
               authResponse_verified
                 (verifyAuthenticationResponse
                    (authResponse_opts claimedCred chal orig rpid storedCred))
                 getNow storedCred db1))"

text \<open>The three checks and the call of \<open>getOrigin\<close> stand before the \<open>try\<close>: what they throw
  is not caught. The two \<open>delete req.session...\<close> statements stand at the end of the
  \<open>try\<close> block and in the \<open>catch\<close> block, which answers with the error itself.\<close>

definition authResponse ::
  "authentication_verifier \<Rightarrow> process_env \<Rightarrow> int \<Rightarrow> AuthenticationCredentialJSON request \<Rightarrow>
     locals \<Rightarrow> firestore \<Rightarrow> StoredCredential outcome" where
  "authResponse verifyAuthenticationResponse env getNow req res_locals db =
     (let uncaught = (\<lambda>e. \<lparr>session_after = session req, store_after = db,
                            reply = Rejected e, console_error = []\<rparr>)
      in
      case user res_locals of
        None \<Rightarrow> uncaught (Thrown ''Unauthorized.'')
      | Some usr \<Rightarrow>
     (case truthy (hostname res_locals) of
        None \<Rightarrow> uncaught (Thrown ''Hostname not configured.'')
      | Some rpid \<Rightarrow>
     (case truthy (origin res_locals) of
        None \<Rightarrow> uncaught (Thrown ''Origin not configured.'')
      | Some org \<Rightarrow>
     (let chal = (case truthy (challenge (session req)) of None \<Rightarrow> [] | Some c \<Rightarrow> c)
      in
      case getOrigin env org (header_User_Agent req) of
        Inl e \<Rightarrow> uncaught e
      | Inr orig \<Rightarrow>
     (case authResponse_try verifyAuthenticationResponse getNow (body req) usr chal orig rpid db of
        (Inr storedCred, db1) \<Rightarrow>
          \<lparr>session_after = (session req)\<lparr>challenge := None, timeout := None\<rparr>,
           store_after = db1, reply = Json storedCred, console_error = []\<rparr>
      | (Inl e, db1) \<Rightarrow>
          \<lparr>session_after = (session req)\<lparr>challenge := None, timeout := None\<rparr>,
           store_after = db1, reply = Status400_error e, console_error = [e]\<rparr>)))))"

text \<open>The device public key that the verifier reports: \<open>devicePublicKey\<close> of
  \<open>authenticationInfo.authenticatorExtensionResults\<close>, when both are there.\<close>

definition extension_dpk :: "AuthenticationInfo \<Rightarrow> DevicePublicKeyOutput option" where
  "extension_dpk info =
     (case authenticatorExtensionResults info of None \<Rightarrow> None | Some ext \<Rightarrow> devicePublicKey ext)"

section \<open>States of the store\<close>

text \<open>The rows of \<open>dpks\<close> that reference a credential: what the query of
  \<open>getDevicePublicKeys\<close> selects.\<close>

definition referencing ::
  "credential_id \<Rightarrow> firestore \<Rightarrow> (string \<times> StoredDevicePublicKey) list" where
  "referencing c db = filter (\<lambda>item. dpk_credentialID (snd item) = c) (coll_dpks db)"

text \<open>\<open>storeDevicePublicKey\<close> is the only writer of \<open>dpks\<close>, and it files a row under its
  \<open>dpk\<close>: in a store that the repository has filled, every row of \<open>dpks\<close> is filed under
  its own \<open>dpk\<close>, and no document id occurs twice.\<close>

definition dpk_keyed :: "firestore \<Rightarrow> bool" where
  "dpk_keyed db = list_all (\<lambda>item. dpk (snd item) = fst item) (coll_dpks db)"

definition dpk_wf :: "firestore \<Rightarrow> bool" where
  "dpk_wf db = (distinct (map fst (coll_dpks db)) \<and> dpk_keyed db)"

text \<open>The calls the repository offers, and a history of calls run from a store.\<close>

datatype repo_call =
    Call_getCredentials user_id
  | Call_getCredential credential_id
  | Call_storeCredential StoredCredential
  | Call_removeCredential credential_id
  | Call_getDevicePublicKeys credential_id
  | Call_removeDevicePublicKey string
  | Call_storeDevicePublicKey StoredDevicePublicKey

fun perform :: "repo_call \<Rightarrow> firestore \<Rightarrow> firestore" where
  "perform (Call_getCredentials u) db = snd (getCredentials u db)"
| "perform (Call_getCredential c) db = snd (getCredential c db)"
| "perform (Call_storeCredential cred) db = snd (storeCredential cred db)"
| "perform (Call_removeCredential c) db = snd (removeCredential c db)"
| "perform (Call_getDevicePublicKeys c) db = snd (getDevicePublicKeys c db)"
| "perform (Call_removeDevicePublicKey k) db = snd (removeDevicePublicKey k db)"
| "perform (Call_storeDevicePublicKey row) db = snd (storeDevicePublicKey row db)"

section \<open>Example data\<close>

definition db_empty :: firestore where
  "db_empty = \<lparr>coll_credentials = [], coll_dpks = [], faults = [], issued = []\<rparr>"

definition env_none :: process_env where
  "env_none = \<lparr>ANDROID_PACKAGENAME = None, ANDROID_SHA256HASH = None\<rparr>"

definition env_android :: process_env where
  "env_android = \<lparr>ANDROID_PACKAGENAME = Some ''com.example.app'',
                  ANDROID_SHA256HASH = Some ''AA:BB:CC''\<rparr>"

definition alice :: UserInfo where
  "alice = \<lparr>ui_user_id = ''alice'', name = ''alice@example.com'',
            displayName = ''Alice'', picture = []\<rparr>"

definition locals_alice :: locals where
  "locals_alice = \<lparr>user = Some alice, hostname = Some ''example.com'',
                   origin = Some ''https://example.com''\<rparr>"

definition locals_anonymous :: locals where
  "locals_anonymous = \<lparr>user = None, hostname = Some ''example.com'',
                       origin = Some ''https://example.com''\<rparr>"

text \<open>A credential as \<open>/registerResponse\<close> stores it: the id is base64url of the bytes
  of \<open>cred1\<close>, the counter is 0, it was never used.\<close>

definition stored_cred :: "user_id \<Rightarrow> StoredCredential" where
  "stored_cred u =
     \<lparr>user_id = u, credentialID = ''Y3JlZDE'', credentialPublicKey = ''AQID'',
      counter = 0, aaguid = None, registered = Some 1000, user_verifying = True,
      authenticatorAttachment = ''platform'', transports = None, browser = None,
      os = None, platform = None, last_used = None, clientExtensionResults = None,
      dpks = None\<rparr>"

definition db_of :: "user_id \<Rightarrow> firestore" where
  "db_of u = \<lparr>coll_credentials = [(''Y3JlZDE'', stored_cred u)], coll_dpks = [],
              faults = [], issued = []\<rparr>"

definition session_challenged :: session where
  "session_challenged = \<lparr>challenge = Some ''c2FsdA'', timeout = Some 301000,
                         type = Some ''platform''\<rparr>"

definition session_idle :: session where
  "session_idle = \<lparr>challenge = None, timeout = None, type = None\<rparr>"

definition auth_request :: "session \<Rightarrow> AuthenticationCredentialJSON request" where
  "auth_request s = \<lparr>body = \<lparr>ac_id = ''Y3JlZDE'', ac_response = ''assertion''\<rparr>,
                     session = s, header_User_Agent = Some ''Mozilla/5.0'',
                     useragent = None\<rparr>"

definition register_request :: "session \<Rightarrow> RegistrationCredentialJSON request" where
  "register_request s =
     \<lparr>body = \<lparr>rc_id = ''Y3JlZDE'', rc_response = ''attestation'', rc_transports = None,
              rc_clientExtensionResults = None\<rparr>,
      session = s, header_User_Agent = Some ''Mozilla/5.0'', useragent = None\<rparr>"

text \<open>Verifier stubs: one that accepts every assertion with the new counter 1, one that
  accepts every attestation of the credential \<open>cred1\<close>, and one that does so with a
  device public key extension that carries no key.\<close>

definition verifier_accepts :: authentication_verifier where
  "verifier_accepts opts =
     Inr \<lparr>verified = True,
          authenticationInfo = Some \<lparr>newCounter = 1, authenticatorExtensionResults = None\<rparr>\<rparr>"

definition attestation_info :: "AuthenticatorExtensionResults option \<Rightarrow> RegistrationInfo" where
  "attestation_info ext =
     \<lparr>ri_credentialPublicKey = [1, 2, 3], ri_credentialID = [99, 114, 101, 100, 49],
      ri_counter = 0, ri_userVerified = True, ri_authenticatorExtensionResults = ext\<rparr>"

definition verifier_registers :: registration_verifier where
  "verifier_registers opts =
     Inr \<lparr>reg_verified = True, registrationInfo = Some (attestation_info None)\<rparr>"

definition verifier_registers_no_dpk :: registration_verifier where
  "verifier_registers_no_dpk opts =
     Inr \<lparr>reg_verified = True,
          registrationInfo =
            Some (attestation_info (Some \<lparr>devicePublicKey = Some \<lparr>dpk_bytes = None\<rparr>\<rparr>))\<rparr>"

text \<open>A store built through the repository: Alice's credential with two device public
  keys, and a key of another credential between them.\<close>

definition three_keys :: "repo_call list" where
  "three_keys =
     [Call_storeCredential (stored_cred ''alice''),
      Call_storeDevicePublicKey \<lparr>dpk_credentialID = ''Y3JlZDE'', dpk = ''key1''\<rparr>,
      Call_storeDevicePublicKey \<lparr>dpk_credentialID = ''other'', dpk = ''key2''\<rparr>,
      Call_storeDevicePublicKey \<lparr>dpk_credentialID = ''Y3JlZDE'', dpk = ''key3''\<rparr>]"

definition db_three_keys :: firestore where
  "db_three_keys = fold perform three_keys db_empty"

definition db_credA :: firestore where
  "db_credA = fold perform
     [Call_storeDevicePublicKey \<lparr>dpk_credentialID = ''credA'', dpk = ''key1''\<rparr>] db_empty"

definition verifier_expects :: "string \<Rightarrow> authentication_verifier" where
  "verifier_expects c opts =
     (if expectedChallenge opts = c then
        Inr \<lparr>verified = True,
             authenticationInfo = Some \<lparr>newCounter = 1, authenticatorExtensionResults = None\<rparr>\<rparr>
      else Inl (ErrorObject ''Unexpected authentication response challenge''))"

text \<open>Two calls of \<open>/registerResponse\<close> in sequence: the second runs on the session and the
  store that the first has left.\<close>

definition first_call :: "RegistrationCredentialJSON outcome" where
  "first_call = registerResponse verifier_registers env_none 1000
                  (register_request session_challenged) locals_alice db_empty"

definition second_call :: "RegistrationCredentialJSON outcome" where
  "second_call = registerResponse verifier_registers env_none 1001
                   (register_request (session_after first_call)) locals_alice
                   (store_after first_call)"

text \<open>The store \<open>db_three_keys\<close> in front of a backend that performs the next request and
  rejects the one after it.\<close>

definition db_rejecting :: firestore where
  "db_rejecting = db_three_keys\<lparr>faults := [None, Some (ErrorObject ''UNAVAILABLE'')]\<rparr>"

text \<open>A verifier that returns \<open>verified: false\<close> for every assertion.\<close>

definition verifier_rejects :: authentication_verifier where
  "verifier_rejects opts = Inr \<lparr>verified = False, authenticationInfo = None\<rparr>"

section \<open>The origin resolver as the specification words it\<close>

text \<open>The character class \<open>[A-Za-z0-9_.]\<close>.\<close>

definition spec_class :: "char \<Rightarrow> bool" where
  "spec_class c =
     (let n = (of_char c :: nat) in
      (65 \<le> n \<and> n \<le> 90) \<or> (97 \<le> n \<and> n \<le> 122) \<or> (48 \<le> n \<and> n \<le> 57) \<or> n = 95 \<or> n = 46)"

definition configured :: "string option \<Rightarrow> string list" where
  "configured v = (case v of None \<Rightarrow> [] | Some s \<Rightarrow> map trim (split_on CHR '','' s))"

text \<open>The declared origin when no user-agent is supplied, when the user-agent has no
  leading token of the class, or when the token equals no configured package name; the
  \<open>android:apk-key-hash:\<close> origin of the i-th hash when the token equals the i-th
  configured package name.\<close>

definition resolve_origin_spec :: "process_env \<Rightarrow> string \<Rightarrow> string option \<Rightarrow> string" where
  "resolve_origin_spec env declared_origin user_agent =
     (case user_agent of
        None \<Rightarrow> declared_origin
      | Some ua \<Rightarrow>
          (case takeWhile spec_class ua of
             [] \<Rightarrow> declared_origin
           | token \<Rightarrow>
               (case index_of token (configured (ANDROID_PACKAGENAME env)) of
                  None \<Rightarrow> declared_origin
                | Some i \<Rightarrow>
                    (case drop i (configured (ANDROID_SHA256HASH env)) of
                       [] \<Rightarrow> declared_origin
                     | h # hs \<Rightarrow> android_origin h))))"

section \<open>The repository\<close>

subsection \<open>Requests\<close>

lemma request_colls:
  "coll_dpks (snd (request c db)) = coll_dpks db"
  "coll_credentials (snd (request c db)) = coll_credentials db"
  "issued (snd (request c db)) = issued db @ [c]"
  "faults (snd (request c db)) = tl (faults db)"
  by (simp_all add: request_def split: list.splits)

lemma request_performed:
  "faults db = [] \<Longrightarrow> request c db = (None, db\<lparr>issued := issued db @ [c]\<rparr>)"
  by (simp add: request_def)

lemma getDevicePublicKeys_Inr:
  "fst (getDevicePublicKeys c db) = Inr ks \<Longrightarrow> ks = map (\<lambda>item. dpk (snd item)) (referencing c db)"
  by (auto simp: getDevicePublicKeys_def referencing_def request_def Let_def split: list.splits option.splits)

lemma getDevicePublicKeys_snd:
  "snd (getDevicePublicKeys c db) = snd (request (Query_dpks c) db)"
  by (auto simp: getDevicePublicKeys_def Let_def split: prod.splits option.splits)

lemma getDevicePublicKeys_performed:
  "faults db = [] \<Longrightarrow> getDevicePublicKeys c db =
     (Inr (map (\<lambda>item. dpk (snd item)) (referencing c db)), db\<lparr>issued := issued db @ [Query_dpks c]\<rparr>)"
  by (simp add: getDevicePublicKeys_def request_performed referencing_def)

lemma removeDevicePublicKey_performed:
  "faults db = [] \<Longrightarrow> removeDevicePublicKey k db =
     (Inr (), db\<lparr>issued := issued db @ [Delete_dpk k], coll_dpks := AList.delete k (coll_dpks db)\<rparr>)"
  by (simp add: removeDevicePublicKey_def request_performed)

lemma fold_remove_performed:
  "faults db = [] \<Longrightarrow>
   fold (\<lambda>item d. snd (removeDevicePublicKey item d)) ks db =
     db\<lparr>issued := issued db @ map Delete_dpk ks,
        coll_dpks := filter (\<lambda>item. fst item \<notin> set ks) (coll_dpks db)\<rparr>"
proof (induction ks arbitrary: db)
  case Nil
  then show ?case by simp
next
  case (Cons k ks)
  let ?d = "db\<lparr>issued := issued db @ [Delete_dpk k], coll_dpks := AList.delete k (coll_dpks db)\<rparr>"
  have f: "faults ?d = []" using Cons.prems by simp
  have "filter (\<lambda>item. fst item \<notin> set ks) (AList.delete k (coll_dpks db))
        = filter (\<lambda>item. fst item \<notin> set (k # ks)) (coll_dpks db)"
    by (auto simp: AList.delete_eq case_prod_unfold intro: filter_cong)
  then show ?case
    using Cons.IH [OF f] Cons.prems by (simp add: removeDevicePublicKey_performed)
qed

lemma referencing_after_cascade:
  assumes "dpk_keyed db"
  shows "filter (\<lambda>item. dpk_credentialID (snd item) = c)
           (filter (\<lambda>item. fst item \<notin> set (map (\<lambda>item. dpk (snd item)) (referencing c db))) (coll_dpks db)) = []"
proof -
  have "\<And>item. item \<in> set (coll_dpks db) \<Longrightarrow> dpk_credentialID (snd item) = c \<Longrightarrow>
          fst item \<in> set (map (\<lambda>item. dpk (snd item)) (referencing c db))"
  proof -
    fix item assume a: "item \<in> set (coll_dpks db)" "dpk_credentialID (snd item) = c"
    then have "item \<in> set (referencing c db)" by (simp add: referencing_def)
    moreover have "dpk (snd item) = fst item"
      using assms a(1) by (simp add: dpk_keyed_def list_all_iff)
    ultimately show "fst item \<in> set (map (\<lambda>item. dpk (snd item)) (referencing c db))"
      by force
  qed
  then show ?thesis by (auto simp: filter_empty_conv)
qed

lemma removeCredential_performed:
  assumes "faults db = []" and "dpk_keyed db"
  shows "fst (removeCredential c db) = Inr () \<and>
         referencing c (snd (removeCredential c db)) = [] \<and>
         fst (getDevicePublicKeys c (snd (removeCredential c db))) = Inr [] \<and>
         map_of (coll_credentials (snd (removeCredential c db))) c = None \<and>
         issued (snd (removeCredential c db)) =
           issued db @ [Query_dpks c] @ map (\<lambda>item. Delete_dpk (dpk (snd item))) (referencing c db)
             @ [Delete_credential c]"
proof -
  let ?ks = "map (\<lambda>item. dpk (snd item)) (referencing c db)"
  let ?db1 = "db\<lparr>issued := issued db @ [Query_dpks c]\<rparr>"
  let ?db2 = "?db1\<lparr>issued := issued ?db1 @ map Delete_dpk ?ks,
        coll_dpks := filter (\<lambda>item. fst item \<notin> set ?ks) (coll_dpks ?db1)\<rparr>"
  have f1: "faults ?db1 = []" using assms(1) by simp
  have f2: "faults ?db2 = []" using assms(1) by simp
  have rc: "removeCredential c db =
      (Inr (), ?db2\<lparr>issued := issued ?db2 @ [Delete_credential c],
                  coll_credentials := AList.delete c (coll_credentials ?db2)\<rparr>)"
    unfolding removeCredential_def
    by (simp add: getDevicePublicKeys_performed fold_remove_performed request_performed
          assms(1) Let_def)
  have ref: "referencing c (snd (removeCredential c db)) = []"
    using referencing_after_cascade [OF assms(2), of c] by (simp add: rc referencing_def)
  have fl: "faults (snd (removeCredential c db)) = []" using assms(1) by (simp add: rc)
  show ?thesis
    using ref getDevicePublicKeys_performed [OF fl, of c]
    by (simp add: rc comp_def delete_notin_dom map_of_eq_None_iff)
qed

subsection \<open>Rows of \<open>dpks\<close> and their owners\<close>

lemma dpk_wf_cong: "coll_dpks a = coll_dpks b \<Longrightarrow> dpk_wf a = dpk_wf b"
  by (simp add: dpk_wf_def dpk_keyed_def)

lemma getDevicePublicKeys_colls:
  "coll_dpks (snd (getDevicePublicKeys c db)) = coll_dpks db"
  by (simp add: getDevicePublicKeys_snd request_colls)

lemma join_dpks_colls: "coll_dpks (snd (join_dpks cs db)) = coll_dpks db"
proof (induction cs arbitrary: db)
  case Nil
  then show ?case by simp
next
  case (Cons cred cs)
  show ?case
  proof (cases "getDevicePublicKeys (credentialID cred) db")
    case (Pair r db1)
    have c1: "coll_dpks db1 = coll_dpks db"
      using getDevicePublicKeys_colls [of "credentialID cred" db] Pair by simp
    show ?thesis
    proof (cases r)
      case (Inl e)
      then show ?thesis using Pair c1 by simp
    next
      case (Inr ks)
      then show ?thesis
        using Pair c1 Cons.IH [of db1] by (cases "join_dpks cs db1") (auto split: sum.splits)
    qed
  qed
qed

lemma getCredentials_colls: "coll_dpks (snd (getCredentials u db)) = coll_dpks db"
proof (cases "request (Query_credentials u) db")
  case (Pair r db1)
  have "coll_dpks db1 = coll_dpks db" using request_colls(1) [of "Query_credentials u" db] Pair by simp
  then show ?thesis
    using Pair join_dpks_colls [of "query_credentials u db1" db1]
    by (cases r) (simp_all add: getCredentials_def)
qed

lemma getCredential_colls: "coll_dpks (snd (getCredential c db)) = coll_dpks db"
  using request_colls(1) [of "Get_credential c" db]
  by (cases "request (Get_credential c) db") (auto simp: getCredential_def split: option.splits)

lemma storeCredential_colls: "coll_dpks (snd (storeCredential cred db)) = coll_dpks db"
  using request_colls(1) [of "Set_credential (credentialID cred)" db]
  by (cases "request (Set_credential (credentialID cred)) db")
     (auto simp: storeCredential_def split: option.splits)

lemma in_update_iff:
  assumes "distinct (map fst al)"
  shows "(a, b) \<in> set (AList.update k v al) \<longleftrightarrow> (if a = k then b = v else (a, b) \<in> set al)"
proof -
  have d: "distinct (map fst (AList.update k v al))" using assms by (rule distinct_update)
  have "(a, b) \<in> set (AList.update k v al) \<longleftrightarrow> map_of (AList.update k v al) a = Some b"
    using d by simp
  also have "\<dots> \<longleftrightarrow> ((map_of al)(k \<mapsto> v)) a = Some b" by (simp add: update_conv')
  also have "\<dots> \<longleftrightarrow> (if a = k then b = v else (a, b) \<in> set al)"
    using assms by auto
  finally show ?thesis .
qed

lemma in_delete_iff: "(a, b) \<in> set (AList.delete k al) \<longleftrightarrow> a \<noteq> k \<and> (a, b) \<in> set al"
  by (induction al) auto

lemma dpk_wf_delete: "dpk_wf db \<Longrightarrow> dpk_wf (db\<lparr>coll_dpks := AList.delete k (coll_dpks db)\<rparr>)"
  unfolding dpk_wf_def dpk_keyed_def
  by (auto simp: distinct_delete list_all_iff in_delete_iff)

lemma dpk_wf_update:
  "dpk_wf db \<Longrightarrow> dpk_wf (db\<lparr>coll_dpks := AList.update (dpk row) row (coll_dpks db)\<rparr>)"
  unfolding dpk_wf_def dpk_keyed_def
  by (auto simp: distinct_update list_all_iff in_update_iff split: if_splits)

lemma removeDevicePublicKey_wf: "dpk_wf db \<Longrightarrow> dpk_wf (snd (removeDevicePublicKey k db))"
proof (cases "request (Delete_dpk k) db")
  case (Pair r db1)
  assume wf: "dpk_wf db"
  have c: "coll_dpks db1 = coll_dpks db" using request_colls(1) [of "Delete_dpk k" db] Pair by simp
  then have wf1: "dpk_wf db1" using wf dpk_wf_cong by blast
  show ?thesis using Pair wf1 dpk_wf_delete [OF wf1, of k]
    by (cases r) (simp_all add: removeDevicePublicKey_def)
qed

lemma storeDevicePublicKey_wf: "dpk_wf db \<Longrightarrow> dpk_wf (snd (storeDevicePublicKey row db))"
proof (cases "request (Set_dpk (dpk row)) db")
  case (Pair r db1)
  assume wf: "dpk_wf db"
  have c: "coll_dpks db1 = coll_dpks db" using request_colls(1) [of "Set_dpk (dpk row)" db] Pair by simp
  then have wf1: "dpk_wf db1" using wf dpk_wf_cong by blast
  show ?thesis using Pair wf1 dpk_wf_update [OF wf1, of row]
    by (cases r) (simp_all add: storeDevicePublicKey_def)
qed

lemma fold_remove_wf:
  "dpk_wf db \<Longrightarrow> dpk_wf (fold (\<lambda>item d. snd (removeDevicePublicKey item d)) ks db)"
  by (induction ks arbitrary: db) (simp_all add: removeDevicePublicKey_wf)

lemma removeCredential_wf: "dpk_wf db \<Longrightarrow> dpk_wf (snd (removeCredential c db))"
proof -
  assume wf: "dpk_wf db"
  obtain r db1 where g: "getDevicePublicKeys c db = (r, db1)" by (cases "getDevicePublicKeys c db")
  have "coll_dpks db1 = coll_dpks db" using getDevicePublicKeys_colls [of c db] g by simp
  then have wf1: "dpk_wf db1" using wf dpk_wf_cong by blast
  show ?thesis
  proof (cases r)
    case (Inl e)
    then show ?thesis using g wf1 by (simp add: removeCredential_def)
  next
    case (Inr ks)
    let ?db2 = "fold (\<lambda>item d. snd (removeDevicePublicKey item d)) ks db1"
    have wf2: "dpk_wf ?db2" using wf1 by (rule fold_remove_wf)
    obtain r3 db3 where q: "request (Delete_credential c) ?db2 = (r3, db3)"
      by (cases "request (Delete_credential c) ?db2")
    have "coll_dpks db3 = coll_dpks ?db2"
      using request_colls(1) [of "Delete_credential c" ?db2] q by simp
    then have wf3: "dpk_wf db3" using wf2 dpk_wf_cong by blast
    have wf4: "dpk_wf (db3\<lparr>coll_credentials := AList.delete c (coll_credentials db3)\<rparr>)"
      using wf3 dpk_wf_cong [of "db3\<lparr>coll_credentials := AList.delete c (coll_credentials db3)\<rparr>" db3]
      by simp
    show ?thesis using g Inr q wf3 wf4
      by (cases r3) (simp_all add: removeCredential_def Let_def)
  qed
qed

lemma perform_wf: "dpk_wf db \<Longrightarrow> dpk_wf (perform call db)"
proof (cases call)
  case (Call_getCredentials u)
  then show "dpk_wf db \<Longrightarrow> ?thesis"
    using dpk_wf_cong [OF getCredentials_colls [of u db]] by simp
next
  case (Call_getCredential c)
  then show "dpk_wf db \<Longrightarrow> ?thesis"
    using dpk_wf_cong [OF getCredential_colls [of c db]] by simp
next
  case (Call_storeCredential cred)
  then show "dpk_wf db \<Longrightarrow> ?thesis"
    using dpk_wf_cong [OF storeCredential_colls [of cred db]] by simp
next
  case (Call_removeCredential c)
  then show "dpk_wf db \<Longrightarrow> ?thesis" by (simp add: removeCredential_wf)
next
  case (Call_getDevicePublicKeys c)
  then show "dpk_wf db \<Longrightarrow> ?thesis"
    using dpk_wf_cong [OF getDevicePublicKeys_colls [of c db]] by simp
next
  case (Call_removeDevicePublicKey k)
  then show "dpk_wf db \<Longrightarrow> ?thesis" by (simp add: removeDevicePublicKey_wf)
next
  case (Call_storeDevicePublicKey row)
  then show "dpk_wf db \<Longrightarrow> ?thesis" by (simp add: storeDevicePublicKey_wf)
qed

lemma fold_perform_wf: "dpk_wf db \<Longrightarrow> dpk_wf (fold perform calls db)"
  by (induction calls arbitrary: db) (simp_all add: perform_wf)

lemma dpk_wf_empty: "coll_dpks db = [] \<Longrightarrow> dpk_wf db"
  by (simp add: dpk_wf_def dpk_keyed_def)

lemma dpk_wf_owner:
  assumes "dpk_wf db" and "k \<in> set (map (\<lambda>item. dpk (snd item)) (referencing c1 db))"
      and "k \<in> set (map (\<lambda>item. dpk (snd item)) (referencing c2 db))"
  shows "c1 = c2"
proof -
  from assms(2) obtain i1 where i1: "i1 \<in> set (coll_dpks db)" "dpk_credentialID (snd i1) = c1" "dpk (snd i1) = k"
    by (auto simp: referencing_def)
  from assms(3) obtain i2 where i2: "i2 \<in> set (coll_dpks db)" "dpk_credentialID (snd i2) = c2" "dpk (snd i2) = k"
    by (auto simp: referencing_def)
  have "fst i1 = k" "fst i2 = k"
    using assms(1) i1 i2 by (auto simp: dpk_wf_def dpk_keyed_def list_all_iff)
  then have "i1 = i2"
    using assms(1) i1(1) i2(1) by (metis dpk_wf_def eq_key_imp_eq_value prod.collapse)
  then show ?thesis using i1 i2 by simp
qed

lemma storeDevicePublicKey_Inr:
  assumes "storeDevicePublicKey row db = (Inr (), db')"
  shows "coll_dpks db' = AList.update (dpk row) row (coll_dpks db)"
proof (cases "request (Set_dpk (dpk row)) db")
  case (Pair r db1)
  have "coll_dpks db1 = coll_dpks db"
    using request_colls(1) [of "Set_dpk (dpk row)" db] Pair by simp
  then show ?thesis using assms Pair by (cases r) (auto simp: storeDevicePublicKey_def)
qed

text \<open>
  Claim C10. A row of \<open>dpks\<close> is filed under its \<open>dpk\<close> alone. In every store that a
  history of repository calls builds from an empty \<open>dpks\<close> collection, the lists of device
  public keys of two different credentials share no key; and storing a key that is listed
  for the credential \<open>c1\<close> under another credential \<open>c2\<close> replaces its row, after which it
  is listed for \<open>c2\<close> and no longer for \<open>c1\<close>.
\<close>

theorem dpk_owned_by_one_credential:
  assumes "coll_dpks db0 = []" and "db = fold perform calls db0" and "c1 \<noteq> c2"
      and "fst (getDevicePublicKeys c1 db) = Inr ks1"
      and "fst (getDevicePublicKeys c2 db) = Inr ks2"
  shows "set ks1 \<inter> set ks2 = {} \<and>
         (\<forall>k db' ks1' ks2'.
            k \<in> set ks1 \<and>
            storeDevicePublicKey \<lparr>dpk_credentialID = c2, dpk = k\<rparr> db = (Inr (), db') \<and>
            fst (getDevicePublicKeys c1 db') = Inr ks1' \<and>
            fst (getDevicePublicKeys c2 db') = Inr ks2'
            \<longrightarrow> k \<notin> set ks1' \<and> k \<in> set ks2' \<and> set ks1' \<inter> set ks2' = {} \<and>
                map_of (coll_dpks db') k = Some \<lparr>dpk_credentialID = c2, dpk = k\<rparr>)"
proof -
  have wf: "dpk_wf db" using assms(1,2) by (simp add: fold_perform_wf dpk_wf_empty)
  have k1: "ks1 = map (\<lambda>item. dpk (snd item)) (referencing c1 db)"
    using assms(4) by (rule getDevicePublicKeys_Inr)
  have k2: "ks2 = map (\<lambda>item. dpk (snd item)) (referencing c2 db)"
    using assms(5) by (rule getDevicePublicKeys_Inr)
  have disj: "set ks1 \<inter> set ks2 = {}"
    using dpk_wf_owner [OF wf, of _ c1 c2] assms(3) k1 k2 by blast
  have re: "k \<notin> set ks1' \<and> k \<in> set ks2' \<and> set ks1' \<inter> set ks2' = {} \<and>
            map_of (coll_dpks db') k = Some \<lparr>dpk_credentialID = c2, dpk = k\<rparr>"
    if h: "k \<in> set ks1"
      "storeDevicePublicKey \<lparr>dpk_credentialID = c2, dpk = k\<rparr> db = (Inr (), db')"
      "fst (getDevicePublicKeys c1 db') = Inr ks1'"
      "fst (getDevicePublicKeys c2 db') = Inr ks2'"
    for k db' ks1' ks2'
  proof -
    let ?row = "\<lparr>dpk_credentialID = c2, dpk = k\<rparr>"
    have c: "coll_dpks db' = AList.update k ?row (coll_dpks db)"
      using storeDevicePublicKey_Inr [OF h(2)] by simp
    have wf': "dpk_wf db'"
      using storeDevicePublicKey_wf [OF wf, of ?row] h(2) by simp
    have d: "distinct (map fst (coll_dpks db))" using wf by (simp add: dpk_wf_def)
    have m: "(k, ?row) \<in> set (coll_dpks db')" using c d by (simp add: in_update_iff)
    have k1': "ks1' = map (\<lambda>item. dpk (snd item)) (referencing c1 db')"
      using h(3) by (rule getDevicePublicKeys_Inr)
    have k2': "ks2' = map (\<lambda>item. dpk (snd item)) (referencing c2 db')"
      using h(4) by (rule getDevicePublicKeys_Inr)
    have in2: "k \<in> set ks2'" using m k2' by (force simp: referencing_def)
    have disj': "set ks1' \<inter> set ks2' = {}"
      using dpk_wf_owner [OF wf', of _ c1 c2] assms(3) k1' k2' by blast
    have "map_of (coll_dpks db') k = Some ?row" by (simp add: c update_conv')
    then show ?thesis using in2 disj' by blast
  qed
  show ?thesis using disj re by blast
qed

theorem dpk_owned_by_one_credential_witness:
  "coll_dpks db_empty = [] \<and> ''credA'' \<noteq> ''credB'' \<and>
   fst (getDevicePublicKeys ''credA'' db_credA) = Inr [''key1''] \<and>
   fst (getDevicePublicKeys ''credB'' db_credA) = Inr [] \<and>
   set [''key1''] \<inter> set ([] :: string list) = {} \<and>
   fst (storeDevicePublicKey \<lparr>dpk_credentialID = ''credB'', dpk = ''key1''\<rparr> db_credA) = Inr () \<and>
   fst (getDevicePublicKeys ''credA''
          (snd (storeDevicePublicKey \<lparr>dpk_credentialID = ''credB'', dpk = ''key1''\<rparr> db_credA)))
     = Inr [] \<and>
   fst (getDevicePublicKeys ''credB''
          (snd (storeDevicePublicKey \<lparr>dpk_credentialID = ''credB'', dpk = ''key1''\<rparr> db_credA)))
     = Inr [''key1'']"
proof -
  have h1: "coll_dpks db_empty = []" by (simp add: db_empty_def)
  have h2: "db_credA = fold perform
     [Call_storeDevicePublicKey \<lparr>dpk_credentialID = ''credA'', dpk = ''key1''\<rparr>] db_empty"
    by (simp add: db_credA_def)
  have h3: "''credA'' \<noteq> ''credB''" by simp
  have h4: "fst (getDevicePublicKeys ''credA'' db_credA) = Inr [''key1'']" by code_simp
  have h5: "fst (getDevicePublicKeys ''credB'' db_credA) = Inr []" by code_simp
  have g1: "fst (getDevicePublicKeys ''credA''
          (snd (storeDevicePublicKey \<lparr>dpk_credentialID = ''credB'', dpk = ''key1''\<rparr> db_credA)))
     = Inr []" by code_simp
  have g2: "fst (getDevicePublicKeys ''credB''
          (snd (storeDevicePublicKey \<lparr>dpk_credentialID = ''credB'', dpk = ''key1''\<rparr> db_credA)))
     = Inr [''key1'']" by code_simp
  have f: "fst (storeDevicePublicKey \<lparr>dpk_credentialID = ''credB'', dpk = ''key1''\<rparr> db_credA)
     = Inr ()" by code_simp
  show ?thesis
    using dpk_owned_by_one_credential [OF h1 h2 h3 h4 h5] h1 h4 h5 f g1 g2 by simp
qed

subsection \<open>Cascading delete\<close>

text \<open>In a store that repository calls have built, and with a backend that performs every
  request, \<open>removeCredential\<close> queries the rows of \<open>dpks\<close> that reference the credential,
  issues a delete for each of them and only then the delete of the credential document;
  afterwards no row of \<open>dpks\<close> references the credential and the credential document is
  absent.\<close>

lemma removeCredential_cascade_performed:
  assumes "coll_dpks db0 = []" and "db = fold perform calls db0" and "faults db = []"
  shows "fst (removeCredential c db) = Inr () \<and>
         referencing c (snd (removeCredential c db)) = [] \<and>
         fst (getDevicePublicKeys c (snd (removeCredential c db))) = Inr [] \<and>
         map_of (coll_credentials (snd (removeCredential c db))) c = None \<and>
         issued (snd (removeCredential c db)) =
           issued db @ [Query_dpks c] @ map (\<lambda>item. Delete_dpk (dpk (snd item))) (referencing c db)
             @ [Delete_credential c]"
proof -
  have "dpk_wf db" using assms(1,2) by (simp add: fold_perform_wf dpk_wf_empty)
  then have "dpk_keyed db" by (simp add: dpk_wf_def)
  then show ?thesis using assms(3) by (rule removeCredential_performed [rotated])
qed

lemma removeCredential_cascade_example:
  "coll_dpks db_empty = [] \<and> faults db_three_keys = [] \<and>
   map fst (referencing ''Y3JlZDE'' db_three_keys) = [''key1'', ''key3''] \<and>
   fst (removeCredential ''Y3JlZDE'' db_three_keys) = Inr () \<and>
   referencing ''Y3JlZDE'' (snd (removeCredential ''Y3JlZDE'' db_three_keys)) = [] \<and>
   fst (getDevicePublicKeys ''Y3JlZDE'' (snd (removeCredential ''Y3JlZDE'' db_three_keys)))
     = Inr [] \<and>
   map_of (coll_credentials (snd (removeCredential ''Y3JlZDE'' db_three_keys))) ''Y3JlZDE''
     = None \<and>
   issued (snd (removeCredential ''Y3JlZDE'' db_three_keys)) =
     issued db_three_keys @
     [Query_dpks ''Y3JlZDE'', Delete_dpk ''key1'', Delete_dpk ''key3'',
      Delete_credential ''Y3JlZDE'']"
proof -
  have h1: "coll_dpks db_empty = []" by (simp add: db_empty_def)
  have h2: "db_three_keys = fold perform three_keys db_empty" by (simp add: db_three_keys_def)
  have h3: "faults db_three_keys = []" by code_simp
  have r: "referencing ''Y3JlZDE'' db_three_keys =
      [(''key1'', \<lparr>dpk_credentialID = ''Y3JlZDE'', dpk = ''key1''\<rparr>),
       (''key3'', \<lparr>dpk_credentialID = ''Y3JlZDE'', dpk = ''key3''\<rparr>)]"
    by code_simp
  show ?thesis
    using removeCredential_cascade_performed [OF h1 h2 h3, of "''Y3JlZDE''"] h1 h3 by (simp add: r)
qed

text \<open>
  Claim C5. The deletes of the rows are issued and not awaited, so \<open>removeCredential\<close> does
  not learn whether they were performed. Alice's credential has the keys \<open>key1\<close> and
  \<open>key3\<close>; the backend performs the query and rejects the delete of \<open>key1\<close>. All four
  requests are issued in the order the claim gives, \<open>removeCredential\<close> completes without
  error and the credential is gone, and the row of \<open>key1\<close> still references it.
\<close>

theorem removeCredential_orphans_key:
  "faults db_rejecting = [None, Some (ErrorObject ''UNAVAILABLE'')] \<and>
   map_of (coll_credentials db_rejecting) ''Y3JlZDE'' = Some (stored_cred ''alice'') \<and>
   map fst (referencing ''Y3JlZDE'' db_rejecting) = [''key1'', ''key3''] \<and>
   fst (removeCredential ''Y3JlZDE'' db_rejecting) = Inr () \<and>
   issued (snd (removeCredential ''Y3JlZDE'' db_rejecting)) =
     issued db_rejecting @
     [Query_dpks ''Y3JlZDE'', Delete_dpk ''key1'', Delete_dpk ''key3'',
      Delete_credential ''Y3JlZDE''] \<and>
   map_of (coll_credentials (snd (removeCredential ''Y3JlZDE'' db_rejecting))) ''Y3JlZDE''
     = None \<and>
   referencing ''Y3JlZDE'' (snd (removeCredential ''Y3JlZDE'' db_rejecting)) =
     [(''key1'', \<lparr>dpk_credentialID = ''Y3JlZDE'', dpk = ''key1''\<rparr>)] \<and>
   fst (getDevicePublicKeys ''Y3JlZDE'' (snd (removeCredential ''Y3JlZDE'' db_rejecting)))
     = Inr [''key1'']"
  by code_simp

subsection \<open>Point lookup\<close>

text \<open>
  Claim C6, as amended. For a credential id that is not in the store, \<open>getCredential\<close>
  raises no error of its own: when the backend performs the lookup it returns
  \<open>undefined\<close> in place of a credential.
\<close>

theorem getCredential_absent:
  assumes "map_of (coll_credentials db) credential_id = None"
      and "fst (request (Get_credential credential_id) db) = None"
  shows "fst (getCredential credential_id db) = Inr None"
  using assms request_colls(2) [of "Get_credential credential_id" db]
  by (cases "request (Get_credential credential_id) db") (simp add: getCredential_def)

theorem getCredential_absent_witness:
  "map_of (coll_credentials (db_of ''alice'')) ''cred-404'' = None \<and>
   fst (request (Get_credential ''cred-404'') (db_of ''alice'')) = None \<and>
   fst (getCredential ''cred-404'' (db_of ''alice'')) = Inr None"
proof -
  have h1: "map_of (coll_credentials (db_of ''alice'')) ''cred-404'' = None"
    by (simp add: db_of_def)
  have h2: "fst (request (Get_credential ''cred-404'') (db_of ''alice'')) = None"
    by (simp add: request_def db_of_def)
  show ?thesis using getCredential_absent [OF h1 h2] h1 h2 by simp
qed

text \<open>The lookup of an id in the empty store returns \<open>undefined\<close>; nothing is thrown.\<close>

theorem getCredential_absent_counterexample:
  "getCredential ''cred-404'' db_empty =
     (Inr None, db_empty\<lparr>issued := [Get_credential ''cred-404'']\<rparr>)"
  by (simp add: getCredential_def request_def db_empty_def)

section \<open>The origin resolver\<close>

text \<open>
  Claim C4. The user-agent \<open>com.example.app[1.0]\<close> begins with the token
  \<open>com.example.app\<close> of the class \<open>[A-Za-z0-9_.]\<close>, which is the configured package name,
  so the resolver of the specification returns the \<open>android:apk-key-hash:\<close> origin. The
  class of \<open>getOrigin\<close> reaches from \<open>A\<close> to \<open>z\<close> and so contains \<open>[\<close>: its token is
  \<open>com.example.app[1.0]\<close>, no package name, and it returns the declared origin.
\<close>

theorem getOrigin_bracket_token:
  "getOrigin env_android ''https://example.com'' (Some ''com.example.app[1.0]'') =
     Inr ''https://example.com'' \<and>
   appRe_match ''com.example.app[1.0]'' = Some ''com.example.app[1.0]'' \<and>
   takeWhile spec_class ''com.example.app[1.0]'' = ''com.example.app'' \<and>
   configured (ANDROID_PACKAGENAME env_android) = [''com.example.app''] \<and>
   resolve_origin_spec env_android ''https://example.com'' (Some ''com.example.app[1.0]'') =
     ''android:apk-key-hash:qrvM''"
  by code_simp

text \<open>Where the two character classes give the same token, and the list of hashes is set
  and not shorter than the list of package names, \<open>getOrigin\<close> returns what the
  specification says.\<close>

lemma package_loop_index:
  "length names \<le> length hashes \<Longrightarrow>
   package_loop tok names hashes =
     Inr (case index_of tok names of None \<Rightarrow> None
          | Some i \<Rightarrow> (case drop i hashes of [] \<Rightarrow> None | h # hs \<Rightarrow> Some (android_origin h)))"
proof (induction names arbitrary: hashes)
  case Nil
  then show ?case by simp
next
  case (Cons p ps)
  show ?case
  proof (cases "tok = p")
    case True
    then show ?thesis using Cons.prems by (cases hashes) simp_all
  next
    case False
    have "length ps \<le> length (tl hashes)" using Cons.prems by (cases hashes) simp_all
    then show ?thesis
      using False Cons.IH [of "tl hashes"]
      by (cases "index_of tok ps") (simp_all add: drop_Suc)
  qed
qed

lemma getOrigin_agrees_with_spec:
  assumes "truthy (ANDROID_SHA256HASH env) \<noteq> None"
      and "length (configured (ANDROID_PACKAGENAME env))
             \<le> length (configured (ANDROID_SHA256HASH env))"
      and "case ua of None \<Rightarrow> True
           | Some s \<Rightarrow> takeWhile appRe_class s = takeWhile spec_class s"
  shows "getOrigin env declared ua = Inr (resolve_origin_spec env declared ua)"
proof (cases ua)
  case None
  then show ?thesis by (simp add: getOrigin_def resolve_origin_spec_def truthy_def)
next
  case (Some s)
  obtain hs where hs: "ANDROID_SHA256HASH env = Some hs" "hs \<noteq> []"
    using assms(1) by (auto simp: truthy_def split: option.splits if_splits)
  have tok: "takeWhile appRe_class s = takeWhile spec_class s" using assms(3) Some by simp
  show ?thesis
  proof (cases "takeWhile spec_class s")
    case Nil
    then show ?thesis
      using Some tok
      by (auto simp: getOrigin_def resolve_origin_spec_def truthy_def appRe_match_def
          split: option.splits)
  next
    case (Cons c cs)
    then have sne: "s \<noteq> []" by auto
    show ?thesis
    proof (cases "truthy (ANDROID_PACKAGENAME env)")
      case None
      then have "configured (ANDROID_PACKAGENAME env) = [] \<or>
                 configured (ANDROID_PACKAGENAME env) = [Nil]"
        by (auto simp: truthy_def configured_def trim_def split: option.splits if_splits)
      then have "index_of (c # cs) (configured (ANDROID_PACKAGENAME env)) = None" by auto
      then show ?thesis
        using Some tok Cons None sne
        by (simp add: getOrigin_def resolve_origin_spec_def truthy_def appRe_match_def)
    next
      case (Some names)
      then have n: "ANDROID_PACKAGENAME env = Some names"
        by (auto simp: truthy_def split: option.splits if_splits)
      have len: "length (map trim (split_on CHR '','' names))
                   \<le> length (map trim (split_on CHR '','' hs))"
        using assms(2) n hs by (simp add: configured_def)
      show ?thesis
        using \<open>ua = Some s\<close> tok Cons Some sne n hs package_loop_index [OF len, of "c # cs"]
        by (simp add: getOrigin_def resolve_origin_spec_def truthy_def appRe_match_def
            configured_def Let_def split: option.splits list.splits)
    qed
  qed
qed

section \<open>The handlers\<close>

subsection \<open>The session after a response\<close>

lemma registerResponse_session:
  "session_after (registerResponse v env now req l db) =
     (session req)\<lparr>challenge := None, timeout := None, type := None\<rparr>"
  by (simp add: registerResponse_def split: prod.splits sum.splits)

lemma authResponse_guarded:
  assumes "user l = Some usr" and "truthy (hostname l) = Some rpid"
      and "truthy (origin l) = Some org"
      and "getOrigin env org (header_User_Agent req) = Inr orig"
  shows "authResponse v env now req l db =
     (case authResponse_try v now (body req) usr
             (case truthy (challenge (session req)) of None \<Rightarrow> [] | Some c \<Rightarrow> c) orig rpid db of
        (Inr storedCred, db1) \<Rightarrow>
          \<lparr>session_after = (session req)\<lparr>challenge := None, timeout := None\<rparr>,
           store_after = db1, reply = Json storedCred, console_error = []\<rparr>
      | (Inl e, db1) \<Rightarrow>
          \<lparr>session_after = (session req)\<lparr>challenge := None, timeout := None\<rparr>,
           store_after = db1, reply = Status400_error e, console_error = [e]\<rparr>)"
  using assms by (simp add: authResponse_def Let_def)

text \<open>
  Claim C2, as amended. \<open>/registerResponse\<close> deletes the challenge, the timeout and the
  enrollment type from the session on every exit path. \<open>/authResponse\<close>, once its three
  checks have passed and the origin is resolved, answers on every exit path (success, a
  credential that is not found, a verification that fails, a device public key without
  key, a store that fails) and deletes the challenge and the timeout; it leaves the
  enrollment type as it is.
\<close>

theorem response_handlers_release_session:
  "session_after (registerResponse v env now req l db) =
     \<lparr>challenge = None, timeout = None, type = None\<rparr> \<and>
   (user l' \<noteq> None \<and> truthy (hostname l') \<noteq> None \<and>
    (\<exists>org orig. truthy (origin l') = Some org \<and>
                 getOrigin env' org (header_User_Agent req') = Inr orig)
    \<longrightarrow> session_after (authResponse v' env' now' req' l' db') =
          (session req')\<lparr>challenge := None, timeout := None\<rparr> \<and>
        (\<forall>e. reply (authResponse v' env' now' req' l' db') \<noteq> Rejected e))"
proof -
  have reg: "session_after (registerResponse v env now req l db) =
     \<lparr>challenge = None, timeout = None, type = None\<rparr>"
    by (simp add: registerResponse_session)
  have auth: "session_after (authResponse v' env' now' req' l' db') =
          (session req')\<lparr>challenge := None, timeout := None\<rparr> \<and>
        (\<forall>e. reply (authResponse v' env' now' req' l' db') \<noteq> Rejected e)"
    if h: "user l' = Some usr" "truthy (hostname l') = Some rpid"
      "truthy (origin l') = Some org" "getOrigin env' org (header_User_Agent req') = Inr orig"
    for usr rpid org orig
    by (simp add: authResponse_guarded [OF h] split: prod.splits sum.splits)
  show ?thesis
  proof (rule conjI [OF reg], rule impI)
    assume "user l' \<noteq> None \<and> truthy (hostname l') \<noteq> None \<and>
      (\<exists>org orig. truthy (origin l') = Some org \<and>
                 getOrigin env' org (header_User_Agent req') = Inr orig)"
    then obtain usr rpid org orig where "user l' = Some usr" "truthy (hostname l') = Some rpid"
      "truthy (origin l') = Some org" "getOrigin env' org (header_User_Agent req') = Inr orig"
      by auto
    then show "session_after (authResponse v' env' now' req' l' db') =
          (session req')\<lparr>challenge := None, timeout := None\<rparr> \<and>
        (\<forall>e. reply (authResponse v' env' now' req' l' db') \<noteq> Rejected e)"
      by (rule auth)
  qed
qed

theorem response_handlers_release_session_witness:
  "session_after (registerResponse verifier_registers env_none 1000
      (register_request session_challenged) locals_alice db_empty) =
     \<lparr>challenge = None, timeout = None, type = None\<rparr> \<and>
   user locals_alice \<noteq> None \<and> truthy (hostname locals_alice) \<noteq> None \<and>
   truthy (origin locals_alice) = Some ''https://example.com'' \<and>
   getOrigin env_none ''https://example.com''
      (header_User_Agent (auth_request session_challenged)) = Inr ''https://example.com'' \<and>
   session_after (authResponse verifier_accepts env_none 2000 (auth_request session_challenged)
      locals_alice (db_of ''bob'')) =
     \<lparr>challenge = None, timeout = None, type = Some ''platform''\<rparr>"
proof -
  have h1: "user locals_alice \<noteq> None" by (simp add: locals_alice_def)
  have h2: "truthy (hostname locals_alice) \<noteq> None" by (simp add: locals_alice_def truthy_def)
  have h3: "truthy (origin locals_alice) = Some ''https://example.com''"
    by (simp add: locals_alice_def truthy_def)
  have h4: "getOrigin env_none ''https://example.com''
      (header_User_Agent (auth_request session_challenged)) = Inr ''https://example.com''"
    by code_simp
  have s: "(session (auth_request session_challenged))\<lparr>challenge := None, timeout := None\<rparr> =
     \<lparr>challenge = None, timeout = None, type = Some ''platform''\<rparr>"
    by (simp add: auth_request_def session_challenged_def)
  show ?thesis
    using response_handlers_release_session
      [of verifier_registers env_none 1000 "register_request session_challenged" locals_alice
          db_empty locals_alice env_none "auth_request session_challenged" verifier_accepts 2000
          "db_of ''bob''"]
      h1 h2 h3 h4 s by auto
qed

text \<open>Two calls of \<open>/authResponse\<close> on a session that holds a challenge, a timeout and the
  enrollment type \<open>platform\<close>: the call that succeeds leaves the type in the session, and
  the call without a user throws before the \<open>try\<close> and leaves the whole session.\<close>

theorem release_session_counterexample:
  "reply (authResponse verifier_accepts env_none 2000 (auth_request session_challenged)
            locals_alice (db_of ''alice'')) =
     Json ((stored_cred ''alice'')\<lparr>counter := 1, last_used := Some 2000, dpks := Some []\<rparr>) \<and>
   type (session_after (authResponse verifier_accepts env_none 2000
            (auth_request session_challenged) locals_alice (db_of ''alice''))) =
     Some ''platform'' \<and>
   authResponse verifier_accepts env_none 2000 (auth_request session_challenged)
            locals_anonymous (db_of ''alice'') =
     \<lparr>session_after = session_challenged, store_after = db_of ''alice'',
      reply = Rejected (Thrown ''Unauthorized.''), console_error = []\<rparr> \<and>
   challenge session_challenged = Some ''c2FsdA''"
  by code_simp

subsection \<open>A challenge is used once\<close>

lemma registerResponse_try_no_challenge:
  assumes "challenge (session req) = None"
  shows "registerResponse_try v env now req l db =
     (Inl (Thrown (if user l = None then ''Unauthorized.'' else ''No challenge found.'')), db)"
  using assms by (auto simp: registerResponse_try_def truthy_def split: option.splits)

text \<open>
  Claim C3. Whatever the first call of \<open>/registerResponse\<close> was given and however it ended,
  it leaves no challenge in the session. A second call on that session never succeeds and
  changes nothing in the store; made by an authenticated caller it fails with
  \<open>No challenge found.\<close> (the check for the user comes first).
\<close>

theorem registerResponse_single_use:
  assumes "r1 = registerResponse v1 env1 now1 req1 l1 db"
      and "session req2 = session_after r1"
      and "r2 = registerResponse v2 env2 now2 req2 l2 (store_after r1)"
  shows "challenge (session_after r1) = None \<and>
         (\<forall>cred. reply r2 \<noteq> Json cred) \<and>
         store_after r2 = store_after r1 \<and>
         (user l2 \<noteq> None \<longrightarrow>
            console_error r2 = [Thrown ''No challenge found.''] \<and>
            reply r2 = Status400_message None)"
proof -
  have c1: "challenge (session_after r1) = None"
    using assms(1) by (simp add: registerResponse_session)
  then have c2: "challenge (session req2) = None" using assms(2) by simp
  show ?thesis
    using c1 assms(3)
    by (simp add: registerResponse_def registerResponse_try_no_challenge [OF c2] message_def)
qed

theorem registerResponse_single_use_witness:
  "reply first_call = Json (body (register_request session_challenged)) \<and>
   challenge (session_after first_call) = None \<and>
   user locals_alice \<noteq> None \<and>
   console_error second_call = [Thrown ''No challenge found.''] \<and>
   reply second_call = Status400_message None \<and>
   store_after second_call = store_after first_call"
proof -
  have h1: "first_call = registerResponse verifier_registers env_none 1000
                  (register_request session_challenged) locals_alice db_empty"
    by (simp add: first_call_def)
  have h2: "session (register_request (session_after first_call)) = session_after first_call"
    by (simp add: register_request_def)
  have h3: "second_call = registerResponse verifier_registers env_none 1001
                   (register_request (session_after first_call)) locals_alice
                   (store_after first_call)"
    by (simp add: second_call_def)
  have u: "user locals_alice \<noteq> None" by (simp add: locals_alice_def)
  have f: "reply first_call = Json (body (register_request session_challenged))"
    by code_simp
  show ?thesis using registerResponse_single_use [OF h1 h2 h3] u f by simp
qed

subsection \<open>The counter after an authentication\<close>

lemma request_keeps: "request c db = (r, db1) \<Longrightarrow>
   coll_credentials db1 = coll_credentials db \<and> coll_dpks db1 = coll_dpks db"
  using request_colls(1,2) [of c db] by simp

lemma getDevicePublicKeys_keeps:
  "getDevicePublicKeys c db = (r, db1) \<Longrightarrow>
     coll_credentials db1 = coll_credentials db \<and> coll_dpks db1 = coll_dpks db"
  using getDevicePublicKeys_snd [of c db] request_colls(1,2) [of "Query_dpks c" db] by simp

lemma storeDevicePublicKey_keeps:
  "storeDevicePublicKey row db = (r, db1) \<Longrightarrow> coll_credentials db1 = coll_credentials db"
  using request_colls(2) [of "Set_dpk (dpk row)" db]
  by (cases "request (Set_dpk (dpk row)) db")
     (auto simp: storeDevicePublicKey_def split: option.splits)

lemma join_dpks_keeps:
  "join_dpks cs db = (r, db1) \<Longrightarrow> coll_credentials db1 = coll_credentials db"
proof (induction cs arbitrary: db r db1)
  case Nil
  then show ?case by simp
next
  case (Cons cred cs)
  obtain r0 d0 where g: "getDevicePublicKeys (credentialID cred) db = (r0, d0)"
    by (cases "getDevicePublicKeys (credentialID cred) db")
  have k0: "coll_credentials d0 = coll_credentials db"
    using getDevicePublicKeys_keeps [OF g] by simp
  show ?case
  proof (cases r0)
    case (Inl e)
    then show ?thesis using Cons.prems g k0 by simp
  next
    case (Inr ks)
    obtain r2 d2 where j: "join_dpks cs d0 = (r2, d2)" by (cases "join_dpks cs d0")
    have "coll_credentials d2 = coll_credentials d0" using Cons.IH [OF j] .
    then show ?thesis using Cons.prems g Inr j k0 by (cases r2) auto
  qed
qed

lemma getCredentials_keeps:
  "getCredentials u db = (r, db1) \<Longrightarrow> coll_credentials db1 = coll_credentials db"
proof -
  assume a: "getCredentials u db = (r, db1)"
  obtain r0 d0 where q: "request (Query_credentials u) db = (r0, d0)"
    by (cases "request (Query_credentials u) db")
  have k0: "coll_credentials d0 = coll_credentials db" using request_keeps [OF q] by simp
  show ?thesis
  proof (cases r0)
    case None
    then have "join_dpks (query_credentials u d0) d0 = (r, db1)"
      using a q by (simp add: getCredentials_def)
    then show ?thesis using join_dpks_keeps k0 by metis
  next
    case (Some e)
    then show ?thesis using a q k0 by (auto simp: getCredentials_def)
  qed
qed

lemma authResponse_verified_keeps:
  "authResponse_verified vr now storedCred db = (r, db1) \<Longrightarrow>
     coll_credentials db1 = coll_credentials db"
  unfolding authResponse_verified_def Let_def
  by (auto split: sum.splits if_splits option.splits prod.splits
      dest: getDevicePublicKeys_keeps)
     (metis getDevicePublicKeys_keeps storeDevicePublicKey_keeps)+

lemma authResponse_try_keeps:
  "authResponse_try v now claimed usr chal orig rpid db = (r, db1) \<Longrightarrow>
     coll_credentials db1 = coll_credentials db"
  unfolding authResponse_try_def
  by (auto split: sum.splits option.splits prod.splits
      dest!: getCredentials_keeps authResponse_verified_keeps)

text \<open>\<open>/authResponse\<close> never writes to the \<open>credentials\<close> collection: \<open>storeCredential\<close> is
  not called on any of its paths.\<close>

lemma authResponse_keeps_credentials:
  "coll_credentials (store_after (authResponse v env now req l db)) = coll_credentials db"
  unfolding authResponse_def Let_def
  by (auto split: sum.splits option.splits prod.splits dest: authResponse_try_keeps)

text \<open>
  Claim C1. Alice authenticates with her credential, stored with counter 0 and never
  used; the verifier reports verified with the new counter 1, at time 2000. The handler
  answers with the credential carrying counter 1 and \<open>last_used\<close> 2000, and the document
  in the store is the one it was: counter 0, no \<open>last_used\<close>.
\<close>

theorem authResponse_counter_not_persisted:
  "reply (authResponse verifier_accepts env_none 2000 (auth_request session_challenged)
            locals_alice (db_of ''alice'')) =
     Json ((stored_cred ''alice'')\<lparr>counter := 1, last_used := Some 2000, dpks := Some []\<rparr>) \<and>
   map_of (coll_credentials (store_after
      (authResponse verifier_accepts env_none 2000 (auth_request session_challenged)
            locals_alice (db_of ''alice'')))) ''Y3JlZDE'' = Some (stored_cred ''alice'') \<and>
   counter (stored_cred ''alice'') = 0 \<and> last_used (stored_cred ''alice'') = None"
  by code_simp

subsection \<open>Ownership\<close>

lemma join_dpks_Inr:
  "join_dpks cs db = (Inr rs, db1) \<Longrightarrow>
     map credentialID rs = map credentialID cs \<and> map user_id rs = map user_id cs"
proof (induction cs arbitrary: db rs db1)
  case Nil
  then show ?case by simp
next
  case (Cons cred cs)
  obtain r0 d0 where g: "getDevicePublicKeys (credentialID cred) db = (r0, d0)"
    by (cases "getDevicePublicKeys (credentialID cred) db")
  show ?case
  proof (cases r0)
    case (Inl e)
    then show ?thesis using Cons.prems g by simp
  next
    case (Inr ks)
    obtain r2 d2 where j: "join_dpks cs d0 = (r2, d2)" by (cases "join_dpks cs d0")
    show ?thesis
    proof (cases r2)
      case (Inl e)
      then show ?thesis using Cons.prems g \<open>r0 = Inr ks\<close> j by simp
    next
      case (Inr rest)
      then have "map credentialID rest = map credentialID cs \<and> map user_id rest = map user_id cs"
        using Cons.IH j by blast
      then show ?thesis using Cons.prems g \<open>r0 = Inr ks\<close> j Inr by auto
    qed
  qed
qed

lemma query_credentials_owned: "cred \<in> set (query_credentials u db) \<Longrightarrow> user_id cred = u"
  by (simp add: query_credentials_def)

lemma getCredentials_owned:
  assumes "getCredentials u db = (Inr cs, db1)"
  shows "list_all (\<lambda>cred. user_id cred = u) cs"
proof -
  obtain r0 d0 where q: "request (Query_credentials u) db = (r0, d0)"
    by (cases "request (Query_credentials u) db")
  have j: "join_dpks (query_credentials u d0) d0 = (Inr cs, db1)"
    using assms q by (cases r0) (simp_all add: getCredentials_def)
  have "map user_id cs = map user_id (query_credentials u d0)"
    using join_dpks_Inr [OF j] by simp
  moreover have "list_all (\<lambda>x. x = u) (map user_id (query_credentials u d0))"
    by (simp add: list_all_iff query_credentials_owned)
  ultimately have "list_all (\<lambda>x. x = u) (map user_id cs)" by simp
  then show ?thesis by (simp add: list_all_iff)
qed

text \<open>
  Claim C7. When the checks of \<open>/authResponse\<close> have passed and \<open>getCredentials\<close> has
  returned the list of the user's credentials, all of which carry the user's id, a claimed
  credential id that is not in this list makes the handler fail with
  \<open>Authenticating credential not found.\<close>, whatever the store holds for other users and
  whatever the verifier would say.
\<close>

theorem authResponse_ownership:
  assumes "user l = Some usr" and "truthy (hostname l) = Some rpid"
      and "truthy (origin l) = Some org"
      and "getOrigin env org (header_User_Agent req) = Inr orig"
      and "getCredentials (ui_user_id usr) db = (Inr credentials, db1)"
      and "ac_id (body req) \<notin> set (map credentialID credentials)"
  shows "authResponse v env now req l db =
           \<lparr>session_after = (session req)\<lparr>challenge := None, timeout := None\<rparr>,
            store_after = db1,
            reply = Status400_error (Thrown ''Authenticating credential not found.''),
            console_error = [Thrown ''Authenticating credential not found.'']\<rparr> \<and>
         list_all (\<lambda>cred. user_id cred = ui_user_id usr) credentials"
proof -
  have "find (\<lambda>cred. credentialID cred = ac_id (body req)) credentials = None"
    using assms(6) by (force simp: find_None_iff)
  then have "authResponse_try v now (body req) usr
      (case truthy (challenge (session req)) of None \<Rightarrow> [] | Some c \<Rightarrow> c) orig rpid db =
      (Inl (Thrown ''Authenticating credential not found.''), db1)"
    using assms(5) by (simp add: authResponse_try_def)
  then show ?thesis
    using getCredentials_owned [OF assms(5)]
    by (simp add: authResponse_guarded [OF assms(1-4)])
qed

theorem authResponse_ownership_witness:
  "map_of (coll_credentials (db_of ''bob'')) ''Y3JlZDE'' = Some (stored_cred ''bob'') \<and>
   ac_id (body (auth_request session_challenged)) = ''Y3JlZDE'' \<and>
   user locals_alice = Some alice \<and>
   fst (getCredentials (ui_user_id alice) (db_of ''bob'')) = Inr [] \<and>
   reply (authResponse verifier_accepts env_none 2000 (auth_request session_challenged)
            locals_alice (db_of ''bob'')) =
     Status400_error (Thrown ''Authenticating credential not found.'')"
proof -
  have h1: "user locals_alice = Some alice" by (simp add: locals_alice_def)
  have h2: "truthy (hostname locals_alice) = Some ''example.com''"
    by (simp add: locals_alice_def truthy_def)
  have h3: "truthy (origin locals_alice) = Some ''https://example.com''"
    by (simp add: locals_alice_def truthy_def)
  have h4: "getOrigin env_none ''https://example.com''
      (header_User_Agent (auth_request session_challenged)) = Inr ''https://example.com''"
    by code_simp
  have h5: "getCredentials (ui_user_id alice) (db_of ''bob'') =
      (Inr [], (db_of ''bob'')\<lparr>issued := [Query_credentials ''alice'']\<rparr>)"
    by code_simp
  have h6: "ac_id (body (auth_request session_challenged)) \<notin> set (map credentialID [])"
    by simp
  have e: "map_of (coll_credentials (db_of ''bob'')) ''Y3JlZDE'' = Some (stored_cred ''bob'')"
    by (simp add: db_of_def)
  have a: "ac_id (body (auth_request session_challenged)) = ''Y3JlZDE''"
    by (simp add: auth_request_def)
  show ?thesis
    using authResponse_ownership [OF h1 h2 h3 h4 h5 h6, of verifier_accepts 2000] h1 h5 e a
    by simp
qed

text \<open>Conversely, a call that succeeds answers with a credential of the caller, the one
  with the claimed id.\<close>

lemma authResponse_verified_owner:
  "authResponse_verified vr now storedCred db = (Inr cred, db1) \<Longrightarrow>
     user_id cred = user_id storedCred \<and> credentialID cred = credentialID storedCred"
  unfolding authResponse_verified_def Let_def
  by (auto split: sum.splits if_splits option.splits prod.splits)

lemma authResponse_success_owned:
  assumes "reply (authResponse v env now req l db) = Json cred" and "user l = Some usr"
  shows "user_id cred = ui_user_id usr \<and> credentialID cred = ac_id (body req)"
proof -
  obtain rpid where h2: "truthy (hostname l) = Some rpid"
    using assms by (auto simp: authResponse_def Let_def split: option.splits)
  obtain org where h3: "truthy (origin l) = Some org"
    using assms h2 by (auto simp: authResponse_def Let_def split: option.splits)
  obtain orig where h4: "getOrigin env org (header_User_Agent req) = Inr orig"
    using assms h2 h3 by (auto simp: authResponse_def Let_def split: sum.splits)
  let ?chal = "case truthy (challenge (session req)) of None \<Rightarrow> [] | Some c \<Rightarrow> c"
  obtain db1 where t: "authResponse_try v now (body req) usr ?chal orig rpid db = (Inr cred, db1)"
    using assms(1) by (auto simp: authResponse_guarded [OF assms(2) h2 h3 h4]
        split: prod.splits sum.splits)
  obtain credentials d0 where g: "getCredentials (ui_user_id usr) db = (Inr credentials, d0)"
    using t by (auto simp: authResponse_try_def split: prod.splits sum.splits)
  obtain storedCred where f:
    "find (\<lambda>c. credentialID c = ac_id (body req)) credentials = Some storedCred"
    using t g by (auto simp: authResponse_try_def split: option.splits)
  have m: "storedCred \<in> set credentials" "credentialID storedCred = ac_id (body req)"
    using f by (auto simp: find_Some_iff)
  have o: "user_id storedCred = ui_user_id usr"
    using getCredentials_owned [OF g] m(1) by (simp add: list_all_iff)
  have "authResponse_verified
          (v (authResponse_opts (body req) ?chal orig rpid storedCred)) now storedCred d0
        = (Inr cred, db1)"
    using t g f by (simp add: authResponse_try_def)
  then show ?thesis using authResponse_verified_owner o m(2) by metis
qed

subsection \<open>Authentication without a challenge\<close>

text \<open>An error of the handler after the verification is what the verifier threw, one of
  the handler's own three, or a rejection by the backend.\<close>

lemma request_rejected: "request c db = (Some e, db1) \<Longrightarrow> Some e \<in> set (faults db)"
  by (auto simp: request_def split: list.splits)

lemma request_faults: "request c db = (r, db1) \<Longrightarrow> set (faults db1) \<subseteq> set (faults db)"
  by (auto simp: request_def split: list.splits)

lemma getDevicePublicKeys_rejected:
  "getDevicePublicKeys c db = (Inl e, db1) \<Longrightarrow> Some e \<in> set (faults db)"
  by (cases "request (Query_dpks c) db")
     (auto simp: getDevicePublicKeys_def Let_def split: option.splits dest: request_rejected)

lemma getDevicePublicKeys_faults:
  "getDevicePublicKeys c db = (r, db1) \<Longrightarrow> set (faults db1) \<subseteq> set (faults db)"
  using getDevicePublicKeys_snd [of c db] request_faults [of "Query_dpks c" db]
  by (cases "request (Query_dpks c) db") auto

lemma storeDevicePublicKey_rejected:
  "storeDevicePublicKey row db = (Inl e, db1) \<Longrightarrow> Some e \<in> set (faults db)"
  by (cases "request (Set_dpk (dpk row)) db")
     (auto simp: storeDevicePublicKey_def split: option.splits dest: request_rejected)

lemma authResponse_verified_errors:
  assumes "authResponse_verified vr now storedCred db = (Inl e, db1)"
  shows "vr = Inl e \<or> e = Thrown ''User verification failed.'' \<or>
         e = ErrorObject ''TypeError: Cannot read properties of undefined'' \<or>
         e = Thrown ''DPK data is missing!'' \<or> Some e \<in> set (faults db)"
  using assms unfolding authResponse_verified_def Let_def
  by (auto split: sum.splits if_splits option.splits prod.splits
      dest: getDevicePublicKeys_rejected)
     (metis getDevicePublicKeys_faults storeDevicePublicKey_rejected subsetD)+

lemma update_member: "(k, v) \<in> set (AList.update k v al)"
  by (induction al) auto

lemma storeDevicePublicKey_performed:
  "faults db = [] \<Longrightarrow> storeDevicePublicKey row db =
     (Inr (), db\<lparr>issued := issued db @ [Set_dpk (dpk row)],
                coll_dpks := AList.update (dpk row) row (coll_dpks db)\<rparr>)"
  by (simp add: storeDevicePublicKey_def request_performed)

text \<open>
  Claim C8. With no challenge in the session, \<open>/authResponse\<close> has no check that stops it:
  for a credential of the user it calls the verifier with the empty string as expected
  challenge, and what it answers is decided by what the verifier returns for these
  options. What the verifier throws is the error of the handler; \<open>verified: false\<close> gives
  \<open>User verification failed.\<close>; a verified answer gives the credential with the new
  counter, unless the answer lacks \<open>authenticationInfo\<close> or carries a device public key
  extension without key. The error \<open>No challenge found.\<close> can only come from the verifier
  or the backend, never from the handler.
\<close>

theorem authResponse_without_challenge:
  assumes "truthy (challenge (session req)) = None"
      and "user l = Some usr" and "truthy (hostname l) = Some rpid"
      and "truthy (origin l) = Some org"
      and "getOrigin env org (header_User_Agent req) = Inr orig"
      and "getCredentials (ui_user_id usr) db = (Inr credentials, db1)"
      and "find (\<lambda>cred. credentialID cred = ac_id (body req)) credentials = Some storedCred"
      and "opts = authResponse_opts (body req) [] orig rpid storedCred"
      and "r = authResponse verify env now req l db"
  shows "expectedChallenge opts = [] \<and>
         session_after r = (session req)\<lparr>challenge := None, timeout := None\<rparr> \<and>
         (\<forall>e. verify opts = Inl e \<longrightarrow>
            reply r = Status400_error e \<and> console_error r = [e] \<and> store_after r = db1) \<and>
         (\<forall>v. verify opts = Inr v \<and> \<not> verified v \<longrightarrow>
            reply r = Status400_error (Thrown ''User verification failed.'') \<and>
            console_error r = [Thrown ''User verification failed.''] \<and> store_after r = db1) \<and>
         (\<forall>v. verify opts = Inr v \<and> verified v \<and> authenticationInfo v = None \<longrightarrow>
            reply r = Status400_error
                        (ErrorObject ''TypeError: Cannot read properties of undefined'') \<and>
            store_after r = db1) \<and>
         (\<forall>v info. verify opts = Inr v \<and> verified v \<and> authenticationInfo v = Some info \<and>
              extension_dpk info = None \<longrightarrow>
            reply r = Json (storedCred\<lparr>counter := newCounter info, last_used := Some now\<rparr>) \<and>
            console_error r = [] \<and> store_after r = db1) \<and>
         (\<forall>v info d. verify opts = Inr v \<and> verified v \<and> authenticationInfo v = Some info \<and>
              extension_dpk info = Some d \<and> dpk_bytes d = None \<longrightarrow>
            reply r = Status400_error (Thrown ''DPK data is missing!'') \<and>
            console_error r = [Thrown ''DPK data is missing!''] \<and> store_after r = db1) \<and>
         (\<forall>v info d k. verify opts = Inr v \<and> verified v \<and> authenticationInfo v = Some info \<and>
              extension_dpk info = Some d \<and> dpk_bytes d = Some k \<and> faults db1 = [] \<longrightarrow>
            reply r = Json (storedCred\<lparr>counter := newCounter info, last_used := Some now\<rparr>) \<and>
            console_error r = [] \<and>
            base64url_encode k \<in>
              set (map (\<lambda>item. dpk (snd item))
                     (referencing (credentialID storedCred) (store_after r)))) \<and>
         (Thrown ''No challenge found.'' \<in> set (console_error r) \<longrightarrow>
            verify opts = Inl (Thrown ''No challenge found.'') \<or>
            Some (Thrown ''No challenge found.'') \<in> set (faults db1))"
proof -
  let ?s = "(session req)\<lparr>challenge := None, timeout := None\<rparr>"
  let ?post = "authResponse_verified (verify opts) now storedCred db1"
  have t: "authResponse_try verify now (body req) usr
      (case truthy (challenge (session req)) of None \<Rightarrow> [] | Some c \<Rightarrow> c) orig rpid db = ?post"
    using assms(1,6,7,8) by (simp add: authResponse_try_def)
  have r: "r = (case ?post of
              (Inr cred, db2) \<Rightarrow>
                \<lparr>session_after = ?s, store_after = db2, reply = Json cred, console_error = []\<rparr>
            | (Inl e, db2) \<Rightarrow>
                \<lparr>session_after = ?s, store_after = db2, reply = Status400_error e,
                 console_error = [e]\<rparr>)"
    using assms(9) t by (simp add: authResponse_guarded [OF assms(2-5)])
  have c0: "expectedChallenge opts = []" using assms(8) by (simp add: authResponse_opts_def)
  have c1: "session_after r = ?s" by (simp add: r split: prod.splits sum.splits)
  have c2: "reply r = Status400_error e \<and> console_error r = [e] \<and> store_after r = db1"
    if "verify opts = Inl e" for e
    using that by (simp add: r authResponse_verified_def)
  have c3: "reply r = Status400_error (Thrown ''User verification failed.'') \<and>
            console_error r = [Thrown ''User verification failed.''] \<and> store_after r = db1"
    if "verify opts = Inr v \<and> \<not> verified v" for v
    using that by (simp add: r authResponse_verified_def)
  have c4: "reply r = Status400_error
                        (ErrorObject ''TypeError: Cannot read properties of undefined'') \<and>
            store_after r = db1"
    if "verify opts = Inr v \<and> verified v \<and> authenticationInfo v = None" for v
    using that by (simp add: r authResponse_verified_def)
  have c5: "reply r = Json (storedCred\<lparr>counter := newCounter info, last_used := Some now\<rparr>) \<and>
            console_error r = [] \<and> store_after r = db1"
    if "verify opts = Inr v \<and> verified v \<and> authenticationInfo v = Some info \<and>
        extension_dpk info = None" for v info
    using that
    by (auto simp: r authResponse_verified_def extension_dpk_def Let_def split: option.splits)
  have c6: "reply r = Status400_error (Thrown ''DPK data is missing!'') \<and>
            console_error r = [Thrown ''DPK data is missing!''] \<and> store_after r = db1"
    if "verify opts = Inr v \<and> verified v \<and> authenticationInfo v = Some info \<and>
        extension_dpk info = Some d \<and> dpk_bytes d = None" for v info d
    using that
    by (auto simp: r authResponse_verified_def extension_dpk_def Let_def split: option.splits)
  have c7: "reply r = Json (storedCred\<lparr>counter := newCounter info, last_used := Some now\<rparr>) \<and>
            console_error r = [] \<and>
            base64url_encode k \<in>
              set (map (\<lambda>item. dpk (snd item))
                     (referencing (credentialID storedCred) (store_after r)))"
    if h: "verify opts = Inr v \<and> verified v \<and> authenticationInfo v = Some info \<and>
        extension_dpk info = Some d \<and> dpk_bytes d = Some k \<and> faults db1 = []" for v info d k
  proof -
    let ?cid = "credentialID storedCred"
    let ?key = "base64url_encode k"
    let ?row = "\<lparr>dpk_credentialID = ?cid, dpk = ?key\<rparr>"
    let ?dbq = "db1\<lparr>issued := issued db1 @ [Query_dpks ?cid]\<rparr>"
    obtain ext where e: "authenticatorExtensionResults info = Some ext" "devicePublicKey ext = Some d"
      using h by (auto simp: extension_dpk_def split: option.splits)
    have f: "faults db1 = []" using h by simp
    have g: "getDevicePublicKeys ?cid db1 =
        (Inr (map (\<lambda>item. dpk (snd item)) (referencing ?cid db1)), ?dbq)"
      using f by (rule getDevicePublicKeys_performed)
    have fq: "faults ?dbq = []" using f by simp
    show ?thesis
    proof (cases "?key \<in> set (map (\<lambda>item. dpk (snd item)) (referencing ?cid db1))")
      case True
      then have "?post = (Inr (storedCred\<lparr>counter := newCounter info, last_used := Some now\<rparr>), ?dbq)"
        using h e g by (simp add: authResponse_verified_def Let_def)
      then show ?thesis using True by (simp add: r referencing_def)
    next
      case False
      have st: "storeDevicePublicKey ?row ?dbq =
          (Inr (), ?dbq\<lparr>issued := issued ?dbq @ [Set_dpk ?key],
                       coll_dpks := AList.update ?key ?row (coll_dpks ?dbq)\<rparr>)"
        using storeDevicePublicKey_performed [OF fq, of ?row] by simp
      have "?post = (Inr (storedCred\<lparr>counter := newCounter info, last_used := Some now\<rparr>),
                     ?dbq\<lparr>issued := issued ?dbq @ [Set_dpk ?key],
                       coll_dpks := AList.update ?key ?row (coll_dpks ?dbq)\<rparr>)"
        using h e g False st by (simp add: authResponse_verified_def Let_def)
      moreover have "(?key, ?row) \<in> set (AList.update ?key ?row (coll_dpks db1))"
        by (rule update_member)
      ultimately show ?thesis by (force simp: r referencing_def)
    qed
  qed
  have c8: "verify opts = Inl (Thrown ''No challenge found.'') \<or>
            Some (Thrown ''No challenge found.'') \<in> set (faults db1)"
    if m: "Thrown ''No challenge found.'' \<in> set (console_error r)"
  proof -
    obtain res db2 where p: "?post = (res, db2)" by (cases ?post)
    show ?thesis
    proof (cases res)
      case (Inl e)
      then have "e = Thrown ''No challenge found.''" using m p by (simp add: r)
      then show ?thesis using authResponse_verified_errors [of "verify opts" now storedCred db1 e db2]
          p Inl by auto
    next
      case (Inr cred)
      then show ?thesis using m p by (simp add: r)
    qed
  qed
  show ?thesis using c0 c1 c2 c3 c4 c5 c6 c7 c8 by blast
qed

theorem authResponse_without_challenge_witness:
  "truthy (challenge (session (auth_request session_idle))) = None \<and>
   user locals_alice = Some alice \<and>
   expectedChallenge (authResponse_opts (body (auth_request session_idle)) []
      ''https://example.com'' ''example.com'' ((stored_cred ''alice'')\<lparr>dpks := Some []\<rparr>)) = [] \<and>
   reply (authResponse verifier_rejects env_none 2000 (auth_request session_idle)
            locals_alice (db_of ''alice'')) =
     Status400_error (Thrown ''User verification failed.'') \<and>
   reply (authResponse (verifier_expects []) env_none 2000 (auth_request session_idle)
            locals_alice (db_of ''alice'')) =
     Json ((stored_cred ''alice'')\<lparr>counter := 1, last_used := Some 2000, dpks := Some []\<rparr>) \<and>
   reply (authResponse (verifier_expects ''c2FsdA'') env_none 2000 (auth_request session_idle)
            locals_alice (db_of ''alice'')) =
     Status400_error (ErrorObject ''Unexpected authentication response challenge'')"
proof -
  let ?sc = "(stored_cred ''alice'')\<lparr>dpks := Some []\<rparr>"
  let ?db1 = "(db_of ''alice'')\<lparr>issued := [Query_credentials ''alice'', Query_dpks ''Y3JlZDE'']\<rparr>"
  let ?opts = "authResponse_opts (body (auth_request session_idle)) []
      ''https://example.com'' ''example.com'' ?sc"
  have h0: "truthy (challenge (session (auth_request session_idle))) = None"
    by (simp add: auth_request_def session_idle_def truthy_def)
  have h1: "user locals_alice = Some alice" by (simp add: locals_alice_def)
  have h2: "truthy (hostname locals_alice) = Some ''example.com''"
    by (simp add: locals_alice_def truthy_def)
  have h3: "truthy (origin locals_alice) = Some ''https://example.com''"
    by (simp add: locals_alice_def truthy_def)
  have h4: "getOrigin env_none ''https://example.com''
      (header_User_Agent (auth_request session_idle)) = Inr ''https://example.com''"
    by code_simp
  have h5: "getCredentials (ui_user_id alice) (db_of ''alice'') = (Inr [?sc], ?db1)"
    by code_simp
  have h6: "find (\<lambda>cred. credentialID cred = ac_id (body (auth_request session_idle))) [?sc]
      = Some ?sc"
    by (simp add: auth_request_def stored_cred_def)
  have h7: "?opts = ?opts" by (rule refl)
  have v1: "verifier_rejects ?opts = Inr \<lparr>verified = False, authenticationInfo = None\<rparr>"
    by (simp add: verifier_rejects_def)
  have v2: "verifier_expects [] ?opts =
      Inr \<lparr>verified = True,
           authenticationInfo = Some \<lparr>newCounter = 1, authenticatorExtensionResults = None\<rparr>\<rparr>"
    by (simp add: verifier_expects_def authResponse_opts_def)
  have v3: "verifier_expects ''c2FsdA'' ?opts =
      Inl (ErrorObject ''Unexpected authentication response challenge'')"
    by (simp add: verifier_expects_def authResponse_opts_def)
  have x: "extension_dpk \<lparr>newCounter = 1, authenticatorExtensionResults = None\<rparr> = None"
    by (simp add: extension_dpk_def)
  have a1: "reply (authResponse verifier_rejects env_none 2000 (auth_request session_idle)
            locals_alice (db_of ''alice'')) =
     Status400_error (Thrown ''User verification failed.'')"
    using authResponse_without_challenge
      [where verify = verifier_rejects and now = 2000, OF h0 h1 h2 h3 h4 h5 h6 h7 refl] v1
    by simp
  have a2: "reply (authResponse (verifier_expects []) env_none 2000 (auth_request session_idle)
            locals_alice (db_of ''alice'')) =
     Json (?sc\<lparr>counter := 1, last_used := Some 2000\<rparr>)"
    using authResponse_without_challenge
      [where verify = "verifier_expects []" and now = 2000, OF h0 h1 h2 h3 h4 h5 h6 h7 refl] v2 x
    by simp
  have a3: "reply (authResponse (verifier_expects ''c2FsdA'') env_none 2000
            (auth_request session_idle) locals_alice (db_of ''alice'')) =
     Status400_error (ErrorObject ''Unexpected authentication response challenge'')"
    using authResponse_without_challenge
      [where verify = "verifier_expects ''c2FsdA''" and now = 2000,
       OF h0 h1 h2 h3 h4 h5 h6 h7 refl] v3
    by simp
  have c: "expectedChallenge ?opts = []" by (simp add: authResponse_opts_def)
  show ?thesis using h0 h1 c a1 a2 a3 by (simp add: stored_cred_def)
qed

subsection \<open>Registration with a malformed extension\<close>

text \<open>
  Claim C9. When the verifier reports a verified registration whose device public key
  extension carries no key, and the backend performs the write, \<open>/registerResponse\<close> fails
  with \<open>DPK data is missing!\<close> after \<open>storeCredential\<close>: the new credential is in the
  store when the handler returns.
\<close>

theorem registerResponse_credential_not_rolled_back:
  assumes "user l = Some usr" and "truthy (challenge (session req)) = Some chal"
      and "truthy (hostname l) = Some rpid" and "truthy (origin l) = Some org"
      and "getOrigin env org (header_User_Agent req) = Inr orig"
      and "verify \<lparr>credential = body req, expectedChallenge = chal,
                   expectedOrigin = orig, expectedRPID = rpid\<rparr> = Inr verification"
      and "reg_verified verification" and "registrationInfo verification = Some info"
      and "ri_authenticatorExtensionResults info = Some ext"
      and "devicePublicKey ext = Some d" and "dpk_bytes d = None"
      and "faults db = []"
  shows "registerResponse verify env now req l db =
           \<lparr>session_after = \<lparr>challenge = None, timeout = None, type = None\<rparr>,
            store_after =
              db\<lparr>issued := issued db @ [Set_credential (base64url_encode (ri_credentialID info))],
                 coll_credentials :=
                   AList.update (base64url_encode (ri_credentialID info))
                     (new_credential usr info now req) (coll_credentials db)\<rparr>,
            reply = Status400_message None,
            console_error = [Thrown ''DPK data is missing!'']\<rparr> \<and>
         map_of (coll_credentials (store_after (registerResponse verify env now req l db)))
           (base64url_encode (ri_credentialID info)) = Some (new_credential usr info now req)"
proof -
  let ?id = "base64url_encode (ri_credentialID info)"
  have cid: "credentialID (new_credential usr info now req) = ?id"
    by (simp add: new_credential_def)
  have st: "storeCredential (new_credential usr info now req) db =
     (Inr (), db\<lparr>issued := issued db @ [Set_credential ?id],
                coll_credentials :=
                  AList.update ?id (new_credential usr info now req) (coll_credentials db)\<rparr>)"
    using assms(12) by (simp add: storeCredential_def request_performed cid)
  have v: "registerResponse_verified verification usr now req db =
     (Inl (Thrown ''DPK data is missing!''),
      db\<lparr>issued := issued db @ [Set_credential ?id],
         coll_credentials :=
           AList.update ?id (new_credential usr info now req) (coll_credentials db)\<rparr>)"
    using assms(7-11) by (simp add: registerResponse_verified_def st)
  have t: "registerResponse_try verify env now req l db =
     (Inl (Thrown ''DPK data is missing!''),
      db\<lparr>issued := issued db @ [Set_credential ?id],
         coll_credentials :=
           AList.update ?id (new_credential usr info now req) (coll_credentials db)\<rparr>)"
    using assms(1-6) v by (simp add: registerResponse_try_def)
  show ?thesis
    by (simp add: registerResponse_def t message_def update_conv')
qed

theorem registerResponse_credential_not_rolled_back_witness:
  "user locals_alice = Some alice \<and>
   faults db_empty = [] \<and>
   verifier_registers_no_dpk
     \<lparr>credential = body (register_request session_challenged), expectedChallenge = ''c2FsdA'',
      expectedOrigin = ''https://example.com'', expectedRPID = ''example.com''\<rparr> =
     Inr \<lparr>reg_verified = True,
          registrationInfo =
            Some (attestation_info (Some \<lparr>devicePublicKey = Some \<lparr>dpk_bytes = None\<rparr>\<rparr>))\<rparr> \<and>
   console_error (registerResponse verifier_registers_no_dpk env_none 1000
      (register_request session_challenged) locals_alice db_empty) =
     [Thrown ''DPK data is missing!''] \<and>
   map_of (coll_credentials (store_after (registerResponse verifier_registers_no_dpk env_none 1000
      (register_request session_challenged) locals_alice db_empty))) ''Y3JlZDE'' =
     Some ((stored_cred ''alice'')\<lparr>credentialPublicKey := ''AQID''\<rparr>)"
proof -
  let ?ext = "\<lparr>devicePublicKey = Some \<lparr>dpk_bytes = None\<rparr>\<rparr>"
  let ?info = "attestation_info (Some ?ext)"
  let ?ver = "\<lparr>reg_verified = True, registrationInfo = Some ?info\<rparr>"
  have h1: "user locals_alice = Some alice" by (simp add: locals_alice_def)
  have h2: "truthy (challenge (session (register_request session_challenged))) = Some ''c2FsdA''"
    by (simp add: register_request_def session_challenged_def truthy_def)
  have h3: "truthy (hostname locals_alice) = Some ''example.com''"
    by (simp add: locals_alice_def truthy_def)
  have h4: "truthy (origin locals_alice) = Some ''https://example.com''"
    by (simp add: locals_alice_def truthy_def)
  have h5: "getOrigin env_none ''https://example.com''
      (header_User_Agent (register_request session_challenged)) = Inr ''https://example.com''"
    by code_simp
  have h6: "verifier_registers_no_dpk
     \<lparr>credential = body (register_request session_challenged), expectedChallenge = ''c2FsdA'',
      expectedOrigin = ''https://example.com'', expectedRPID = ''example.com''\<rparr> = Inr ?ver"
    by (simp add: verifier_registers_no_dpk_def)
  have h7: "reg_verified ?ver" by simp
  have h8: "registrationInfo ?ver = Some ?info" by simp
  have h9: "ri_authenticatorExtensionResults ?info = Some ?ext"
    by (simp add: attestation_info_def)
  have h10: "devicePublicKey ?ext = Some \<lparr>dpk_bytes = None\<rparr>" by simp
  have h11: "dpk_bytes \<lparr>dpk_bytes = None\<rparr> = None" by simp
  have h12: "faults db_empty = []" by (simp add: db_empty_def)
  have i: "base64url_encode (ri_credentialID ?info) = ''Y3JlZDE''" by code_simp
  have n: "new_credential alice ?info 1000 (register_request session_challenged) =
     (stored_cred ''alice'')\<lparr>credentialPublicKey := ''AQID''\<rparr>"
    by code_simp
  show ?thesis
    using registerResponse_credential_not_rolled_back
      [where verify = verifier_registers_no_dpk and now = 1000,
       OF h1 h2 h3 h4 h5 h6 h7 h8 h9 h10 h11 h12] h1 h12 h6
    by (simp add: i n update_conv')
qed

end
